theory Spec2Isabelle
  imports Complex_Main "HOL-Library.Word" "HOL-Library.Signed_Division"
begin

section \<open>Data model of \<open>ph::ffmpeg::MovieGl\<close> (CinderFFmpeg.cpp)\<close>

text \<open>
  A finite C++ \<open>double\<close> is the real number it stands for: the time stamps, clock values
  and the frame rate that the collaborators hand over are reals, and comparing two of them
  is exact, as it is on doubles. The zero of the reals stands for \<open>+0.0\<close>; the
  collaborators are taken to return finite numbers, not NaN. The arithmetic the pump itself
  does on doubles, in line 77 and line 78, rounds and can leave the finite numbers; it is
  written out below (\<open>xdouble\<close>, \<open>roundDouble\<close>). The \<open>float\<close> values of the
  fragment program and of the texture coordinates are reals without rounding.
\<close>

type_synonym double = real

type_synonym byte = "8 word"

text \<open>The error outcomes of the C++ code, as values.\<close>

datatype error =
    LogicError string            \<comment> \<open>\<open>throw std::logic_error( ... )\<close> of the constructor\<close>
  | NullPointerDereference       \<comment> \<open>\<open>p->f()\<close> on an empty \<open>shared_ptr\<close>\<close>

subsection \<open>Frames handed over by the decoder\<close>

record VideoFrame =
  getWidth :: int
  getHeight :: int
  getYLineSize :: int
  getULineSize :: int
  getVLineSize :: int
  getYPlane :: "byte list"
  getUPlane :: "byte list"
  getVPlane :: "byte list"

record AudioFrame =
  getSamples :: "byte list"
  getPts :: double

text \<open>
  The frames the source declares without an initialiser (\<open>VideoFrame videoFrame;\<close>,
  \<open>AudioFrame audioFrame;\<close>). The pump reads a video frame's fields only after a
  successful pull has written it.
\<close>

definition VideoFrame_init :: VideoFrame where
  "VideoFrame_init = \<lparr> getWidth = 0, getHeight = 0, getYLineSize = 0, getULineSize = 0,
     getVLineSize = 0, getYPlane = [], getUPlane = [], getVPlane = [] \<rparr>"

definition AudioFrame_init :: AudioFrame where
  "AudioFrame_init = \<lparr> getSamples = [], getPts = 0 \<rparr>"

datatype AudioFormat = AudioFormat nat nat nat

subsection \<open>The collaborators, taken as parameters\<close>

text \<open>
  \<open>MovieDecoder\<close>, \<open>AudioRenderer\<close> and Cinder's \<open>Timer\<close> are used by the source
  through their member functions only. Each is a record of operations over a state type
  of its own; a \<open>bool f( Frame & )\<close> member takes the caller's frame and returns the flag,
  the frame as it is after the call and the new state.
\<close>

record 'd MovieDecoder =
  isInitialized :: "'d \<Rightarrow> bool"
  hasAudio :: "'d \<Rightarrow> bool"
  getAudioFormat :: "'d \<Rightarrow> AudioFormat \<times> 'd"
  decodeAudioFrame :: "'d \<Rightarrow> AudioFrame \<Rightarrow> bool \<times> AudioFrame \<times> 'd"
  decodeVideoFrame :: "'d \<Rightarrow> VideoFrame \<Rightarrow> bool \<times> VideoFrame \<times> 'd"
  getVideoClock :: "'d \<Rightarrow> double"
  getFramesPerSecond :: "'d \<Rightarrow> double"
  getNumberOfFrames :: "'d \<Rightarrow> nat"
  getFrameWidth :: "'d \<Rightarrow> int"
  getFrameHeight :: "'d \<Rightarrow> int"
  getDuration :: "'d \<Rightarrow> double"
  decIsPlaying :: "'d \<Rightarrow> bool"
  decIsDone :: "'d \<Rightarrow> bool"
  decStart :: "'d \<Rightarrow> 'd"
  decStop :: "'d \<Rightarrow> 'd"
  decPause :: "'d \<Rightarrow> 'd"
  decResume :: "'d \<Rightarrow> 'd"
  decSeekToTime :: "double \<Rightarrow> 'd \<Rightarrow> 'd"
  decLoop :: "bool \<Rightarrow> 'd \<Rightarrow> 'd"

record 'a AudioRenderer =
  arCreate :: "'a"                 \<comment> \<open>\<open>AudioRendererFactory::create( OPENAL_OUTPUT )\<close>\<close>
  setFormat :: "AudioFormat \<Rightarrow> 'a \<Rightarrow> 'a"
  hasBufferSpace :: "'a \<Rightarrow> bool"
  queueFrame :: "AudioFrame \<Rightarrow> 'a \<Rightarrow> 'a"
  flushBuffers :: "'a \<Rightarrow> 'a"
  getCurrentPts :: "'a \<Rightarrow> double"
  clearBuffers :: "'a \<Rightarrow> 'a"
  arStop :: "'a \<Rightarrow> 'a"
  arPause :: "'a \<Rightarrow> 'a"
  arPlay :: "'a \<Rightarrow> 'a"

record 't Timer =
  tmNew :: "'t"                    \<comment> \<open>the default-constructed \<open>mUpdateTimer\<close>\<close>
  tmStart :: "double \<Rightarrow> 't \<Rightarrow> 't"  \<comment> \<open>\<open>start( offsetSeconds )\<close>; \<open>start()\<close> is \<open>start( 0 )\<close>\<close>
  tmStop :: "'t \<Rightarrow> 't"
  getSeconds :: "'t \<Rightarrow> double"

subsection \<open>Graphics objects\<close>

text \<open>
  A texture is its GL name, its size and what was last written to it. Names come from a
  counter in the movie's state, so that a newly created object is told from a kept one.
\<close>

record GlslProg =
  texUnit1 :: int
  texUnit2 :: int
  texUnit3 :: int
  brightness :: double
  gamma :: "double \<times> double \<times> double"
  contrast :: double

record DrawCall =
  dcProgram :: GlslProg
  dcUnit0 :: nat                    \<comment> \<open>names of the textures bound to units 0, 1, 2\<close>
  dcUnit1 :: nat
  dcUnit2 :: nat
  dcViewport :: "int \<times> int"
  dcUpperLeftTexCoord :: "double \<times> double"
  dcLowerRightTexCoord :: "double option \<times> double"

datatype TexData = Unwritten | Uploaded "byte list" | Rendered DrawCall

record Texture =
  texName :: nat
  texWidth :: int
  texHeight :: int
  texData :: TexData

record Fbo =
  fboWidth :: int
  fboHeight :: int
  getColorTexture :: Texture

subsection \<open>The object\<close>

record ('d, 'a, 't) MovieGl =
  mWidth :: int
  mHeight :: int
  mDuration :: double
  mAudioRenderer :: "'a option"
  mMovieDecoder :: 'd
  mUpdateTimer :: 't
  mYPlane :: "Texture option"
  mUPlane :: "Texture option"
  mVPlane :: "Texture option"
  mFbo :: "Fbo option"
  mShader :: "GlslProg option"
  mTexture :: "Texture option"
  glNextName :: nat                 \<comment> \<open>the graphics backend's next free object name\<close>
  console :: "string list"          \<comment> \<open>what was written to \<open>app::console()\<close>\<close>
  logV :: "double list"             \<comment> \<open>the clocks of the \<open>CI_LOG_V\<close> skipped-frame messages\<close>

section \<open>Construction\<close>

text \<open>
  \<open>initializeShader\<close>: \<open>gl::GlslProg::create\<close> either returns a program or throws; the
  outcome of the compilation is the argument (\<open>Some msg\<close> is the exception's
  \<open>what()\<close>). The exception is caught and written to the console, and \<open>mShader\<close> stays
  empty.
\<close>

definition GlslProg_create :: GlslProg where
  "GlslProg_create = \<lparr> texUnit1 = 0, texUnit2 = 0, texUnit3 = 0, brightness = 0,
     gamma = (0, 0, 0), contrast = 0 \<rparr>"

definition initializeShader ::
  "string option \<Rightarrow> ('d, 'a, 't) MovieGl \<Rightarrow> ('d, 'a, 't) MovieGl" where
  "initializeShader compileFailure m =
     (case compileFailure of
        None \<Rightarrow> m\<lparr> mShader := Some GlslProg_create \<rparr>
      | Some what \<Rightarrow> m\<lparr> console := console m @ [what] \<rparr>)"

text \<open>
  The constructor. \<open>d0\<close> is the decoder made from the path; \<open>playAudio\<close> is the
  caller's flag.
\<close>

definition MovieGl_ctor ::
  "'d MovieDecoder \<Rightarrow> 'a AudioRenderer \<Rightarrow> 't Timer \<Rightarrow> 'd \<Rightarrow> bool \<Rightarrow> string option
     \<Rightarrow> error + ('d, 'a, 't) MovieGl" where
  "MovieGl_ctor D A T d0 playAudio compileFailure =
     (if \<not> isInitialized D d0 then Inl (LogicError ''MovieDecoder: Failed to initialize'')
      else
        let (d1, ar) =
              (if hasAudio D d0 then
                 (let (audioFormat, d1) = getAudioFormat D d0
                  in (d1, if playAudio then Some (setFormat A audioFormat (arCreate A)) else None))
               else (d0, None))
        in Inr (initializeShader compileFailure
             \<lparr> mWidth = 0, mHeight = 0, mDuration = 0, mAudioRenderer = ar,
               mMovieDecoder = d1, mUpdateTimer = tmNew T,
               mYPlane = None, mUPlane = None, mVPlane = None, mFbo = None,
               mShader = None, mTexture = None, glNextName = 0, console = [], logV = [] \<rparr>))"

section \<open>\<open>MovieGl::update\<close>\<close>

subsection \<open>Audio (lines 47 to 69)\<close>

text \<open>
  Both audio loops run until the decoder (or the renderer) ends them; neither has a
  bound, so each is a partial function and \<open>None\<close> is the loop that never ends.
\<close>

partial_function (option) queueAudio ::
  "'d MovieDecoder \<Rightarrow> 'a AudioRenderer \<Rightarrow> 'd \<Rightarrow> 'a \<Rightarrow> ('d \<times> 'a) option" where
  "queueAudio D A d a =
     (if hasBufferSpace A a then
        (let r = decodeAudioFrame D d AudioFrame_init in
         if fst r then queueAudio D A (snd (snd r)) (queueFrame A (fst (snd r)) a)
         else Some (snd (snd r), a))
      else Some (d, a))"

partial_function (option) discardAudio ::
  "'d MovieDecoder \<Rightarrow> 'd \<Rightarrow> AudioFrame \<Rightarrow> ('d \<times> AudioFrame) option" where
  "discardAudio D d audioFrame =
     (let r = decodeAudioFrame D d audioFrame in
      if fst r then discardAudio D (snd (snd r)) (fst (snd r))
      else Some (snd (snd r), fst (snd r)))"

declare queueAudio.simps [code]
declare discardAudio.simps [code]

text \<open>The audio part of a tick: the state after it and \<open>currentPts\<close>.\<close>

definition decodeAudio ::
  "'d MovieDecoder \<Rightarrow> 'a AudioRenderer \<Rightarrow> 't Timer \<Rightarrow> ('d, 'a, 't) MovieGl
     \<Rightarrow> (('d, 'a, 't) MovieGl \<times> double) option" where
  "decodeAudio D A T m =
     (case mAudioRenderer m of
        Some a \<Rightarrow>
          (case queueAudio D A (mMovieDecoder m) a of
             None \<Rightarrow> None
           | Some (d', a') \<Rightarrow>
               (let a'' = flushBuffers A a'
                in Some (m\<lparr> mMovieDecoder := d', mAudioRenderer := Some a'' \<rparr>,
                         getCurrentPts A a'')))
      | None \<Rightarrow>
          (if hasAudio D (mMovieDecoder m) then
             (case discardAudio D (mMovieDecoder m) AudioFrame_init of
                None \<Rightarrow> None
              | Some (d', _) \<Rightarrow>
                  Some (m\<lparr> mMovieDecoder := d' \<rparr>, getSeconds T (mUpdateTimer m)))
           else Some (m, getSeconds T (mUpdateTimer m))))"

subsection \<open>The double arithmetic of lines 77 and 78\<close>

text \<open>
  The result of an operation on doubles is a finite double or an infinity. (With finite
  operands, a non-zero dividend, and the factor 0.5, none of the operations below yields
  NaN.)
\<close>

datatype xdouble = Finite double | PlusInfinity | MinusInfinity

text \<open>
  IEEE 754 binary64, round to nearest, ties to even. \<open>binade a\<close> is the exponent \<open>e\<close>
  with \<open>2^e \<le> a < 2^(e+1)\<close>, kept within \<open>-1022 .. 1024\<close>: below \<open>2^-1022\<close> the
  subnormal numbers share the spacing of exponent \<open>-1022\<close>. A double of that binade is a
  multiple of \<open>2^(e-52)\<close>; \<open>roundDouble\<close> takes the nearest multiple, the even one of
  two equally near, and overflows to an infinity when that multiple reaches \<open>2^1024\<close>.
\<close>

fun binadeUp :: "nat \<Rightarrow> real \<Rightarrow> nat" where
  "binadeUp n a = (if n = 0 \<or> 1 \<le> a then 0 else Suc (binadeUp (n - 1) (2 * a)))"

fun binadeDown :: "nat \<Rightarrow> real \<Rightarrow> nat" where
  "binadeDown n a = (if n = 0 \<or> a < 2 then 0 else Suc (binadeDown (n - 1) (a / 2)))"

declare binadeUp.simps [simp del]
declare binadeDown.simps [simp del]

definition binade :: "real \<Rightarrow> int" where
  "binade a = (if a < 1 then - int (binadeUp 1022 a) else int (binadeDown 1024 a))"

definition twoPower :: "int \<Rightarrow> real" where
  "twoPower e = (if 0 \<le> e then 2 ^ nat e else 1 / 2 ^ nat (- e))"

definition roundToEven :: "real \<Rightarrow> int" where
  "roundToEven r =
     (let f = \<lfloor>r\<rfloor>; d = r - of_int f
      in if d < 1 / 2 then f else if 1 / 2 < d then f + 1 else if even f then f else f + 1)"

definition roundDouble :: "real \<Rightarrow> xdouble" where
  "roundDouble x =
     (if x = 0 then Finite 0
      else
        (let a = \<bar>x\<bar>;
             q = twoPower (binade a - 52);
             r = of_int (roundToEven (a / q)) * q
         in if 2 ^ 1024 \<le> r then (if 0 < x then PlusInfinity else MinusInfinity)
            else Finite (if 0 < x then r else - r)))"

text \<open>A real that is a double: rounding leaves it as it is.\<close>

definition isDouble :: "real \<Rightarrow> bool" where
  "isDouble x \<longleftrightarrow> roundDouble x = Finite x"

text \<open>
  \<open>1. / fps\<close>, \<open>frameDuration * 0.5\<close>, \<open>currentPts + bias\<close> and
  \<open>getVideoClock() < threshold\<close>, on a finite left operand, each operation rounded on
  its own (the product and the sum are not fused). Division by \<open>+0.0\<close> gives \<open>+inf\<close>.
\<close>

definition ddivOne :: "double \<Rightarrow> xdouble" where
  "ddivOne fps = (if fps = 0 then PlusInfinity else roundDouble (1 / fps))"

definition halfOf :: "xdouble \<Rightarrow> xdouble" where
  "halfOf x =
     (case x of
        Finite a \<Rightarrow> roundDouble (a * 0.5)
      | PlusInfinity \<Rightarrow> PlusInfinity
      | MinusInfinity \<Rightarrow> MinusInfinity)"

definition dadd :: "double \<Rightarrow> xdouble \<Rightarrow> xdouble" where
  "dadd a x =
     (case x of
        Finite b \<Rightarrow> roundDouble (a + b)
      | PlusInfinity \<Rightarrow> PlusInfinity
      | MinusInfinity \<Rightarrow> MinusInfinity)"

definition dless :: "double \<Rightarrow> xdouble \<Rightarrow> bool" where
  "dless a x =
     (case x of
        Finite b \<Rightarrow> a < b
      | PlusInfinity \<Rightarrow> True
      | MinusInfinity \<Rightarrow> False)"

subsection \<open>Video (lines 71 to 92)\<close>

text \<open>The local variables of the loop, with the two members it changes.\<close>

record ('d, 't) VideoLoop =
  hasVideo :: bool
  count :: int
  videoFrame :: VideoFrame
  currentVideoClock :: double
  vlDecoder :: 'd
  vlTimer :: 't
  vlLog :: "double list"

text \<open>
  The loop condition
  \<open>getVideoClock() < currentPts + ( hasVideo ? 0. : frameDuration * 0.5 ) && count++ < 100\<close>:
  \<open>count\<close> is incremented only when the comparison of the clocks holds, and the old
  value is the one compared with 100.
\<close>

definition videoClockBelow ::
  "'d MovieDecoder \<Rightarrow> double \<Rightarrow> xdouble \<Rightarrow> ('d, 't) VideoLoop \<Rightarrow> bool" where
  "videoClockBelow D currentPts frameDuration s =
     dless (getVideoClock D (vlDecoder s))
       (dadd currentPts (if hasVideo s then Finite 0 else halfOf frameDuration))"

text \<open>
  One run of the loop body on the state in which \<open>count\<close> is already incremented: the
  new state, and whether the loop goes on (\<open>False\<close> is a \<open>break\<close>).
\<close>

definition videoBody ::
  "'d MovieDecoder \<Rightarrow> 't Timer \<Rightarrow> ('d, 't) VideoLoop \<Rightarrow> ('d, 't) VideoLoop \<times> bool" where
  "videoBody D T s =
     (let r = decodeVideoFrame D (vlDecoder s) (videoFrame s) in
      if fst r then
        (let d' = snd (snd r);
             s1 = s\<lparr> videoFrame := fst (snd r), vlDecoder := d',
                     vlLog := (if hasVideo s then vlLog s @ [getVideoClock D d'] else vlLog s),
                     hasVideo := True \<rparr>
         in if currentVideoClock s > getVideoClock D d'
            then (s1\<lparr> vlTimer := tmStart T (getVideoClock D d') (vlTimer s) \<rparr>, False)
            else (s1\<lparr> currentVideoClock := getVideoClock D d' \<rparr>, True))
      else (s\<lparr> videoFrame := fst (snd r), vlDecoder := snd (snd r) \<rparr>, False))"

function drainVideo ::
  "'d MovieDecoder \<Rightarrow> 't Timer \<Rightarrow> double \<Rightarrow> xdouble \<Rightarrow> ('d, 't) VideoLoop \<Rightarrow> ('d, 't) VideoLoop"
  where
  "drainVideo D T currentPts frameDuration s =
     (if videoClockBelow D currentPts frameDuration s then
        (if count s < 100 then
           (if snd (videoBody D T (s\<lparr> count := count s + 1 \<rparr>))
            then drainVideo D T currentPts frameDuration
                   (fst (videoBody D T (s\<lparr> count := count s + 1 \<rparr>)))
            else fst (videoBody D T (s\<lparr> count := count s + 1 \<rparr>)))
         else s\<lparr> count := count s + 1 \<rparr>)
      else s)"
  by pat_completeness auto

termination drainVideo
  by (relation "measure (\<lambda>(D, T, currentPts, frameDuration, s). nat (100 - count s))")
     (simp_all add: videoBody_def Let_def)

declare drainVideo.simps [simp del]

text \<open>Lines 72 to 92: the locals are initialised, the loop runs.\<close>

definition decodeVideo ::
  "'d MovieDecoder \<Rightarrow> 't Timer \<Rightarrow> double \<Rightarrow> ('d, 'a, 't) MovieGl \<Rightarrow> ('d, 't) VideoLoop" where
  "decodeVideo D T currentPts m =
     drainVideo D T currentPts (ddivOne (getFramesPerSecond D (mMovieDecoder m)))
       \<lparr> hasVideo = False, count = 0, videoFrame = VideoFrame_init,
         currentVideoClock = getVideoClock D (mMovieDecoder m),
         vlDecoder = mMovieDecoder m, vlTimer = mUpdateTimer m, vlLog = logV m \<rparr>"

subsection \<open>Plane textures and the offscreen target (lines 94 to 114)\<close>

definition Texture2d_create :: "int \<Rightarrow> int \<Rightarrow> nat \<Rightarrow> Texture" where
  "Texture2d_create w h name =
     \<lparr> texName = name, texWidth = w, texHeight = h, texData = Unwritten \<rparr>"

definition Fbo_create :: "int \<Rightarrow> int \<Rightarrow> nat \<Rightarrow> Fbo" where
  "Fbo_create w h name =
     \<lparr> fboWidth = w, fboHeight = h, getColorTexture = Texture2d_create w h name \<rparr>"

definition resizeNeeded :: "VideoFrame \<Rightarrow> ('d, 'a, 't) MovieGl \<Rightarrow> bool" where
  "resizeNeeded vf m =
     (mYPlane m = None \<or> mUPlane m = None \<or> mVPlane m = None \<or> mFbo m = None
      \<or> getHeight vf \<noteq> mHeight m \<or> getWidth vf \<noteq> mWidth m)"

text \<open>\<open>mHeight / 2\<close> is the division of C++, which truncates: \<open>sdiv\<close>.\<close>

definition resizeTextures ::
  "VideoFrame \<Rightarrow> ('d, 'a, 't) MovieGl \<Rightarrow> ('d, 'a, 't) MovieGl" where
  "resizeTextures vf m =
     (if resizeNeeded vf m then
        (let w = getWidth vf; h = getHeight vf; n = glNextName m
         in m\<lparr> mWidth := w, mHeight := h,
               mYPlane := Some (Texture2d_create (getYLineSize vf) h n),
               mUPlane := Some (Texture2d_create (getULineSize vf) (h sdiv 2) (n + 1)),
               mVPlane := Some (Texture2d_create (getVLineSize vf) (h sdiv 2) (n + 2)),
               mFbo := Some (Fbo_create w h (n + 3)),
               glNextName := n + 4 \<rparr>)
      else m)"

subsection \<open>Upload (lines 116 to 130)\<close>

definition glTexSubImage2D :: "byte list \<Rightarrow> Texture \<Rightarrow> Texture" where
  "glTexSubImage2D pixels t = t\<lparr> texData := Uploaded pixels \<rparr>"

definition uploadPlanes ::
  "VideoFrame \<Rightarrow> ('d, 'a, 't) MovieGl \<Rightarrow> ('d, 'a, 't) MovieGl" where
  "uploadPlanes vf m =
     m\<lparr> mYPlane := map_option (glTexSubImage2D (getYPlane vf)) (mYPlane m),
        mUPlane := map_option (glTexSubImage2D (getUPlane vf)) (mUPlane m),
        mVPlane := map_option (glTexSubImage2D (getVPlane vf)) (mVPlane m) \<rparr>"

subsection \<open>Render to the offscreen target (lines 132 to 161)\<close>

text \<open>
  \<open>gl::ScopedFramebuffer\<close> and \<open>gl::ScopedTextureBind\<close> call a member of the object
  they are given, and \<open>mShader->uniform\<close>, \<open>mYPlane->getWidth()\<close> and
  \<open>mFbo->getBounds()\<close> are member calls: on an empty pointer each is a null pointer
  dereference. They are checked in the order of the source.

  \<open>getSize()\<close> and \<open>getWidth()\<close> are inline members of the class declaration, which is
  not among the sources. Modelled from the spec: the viewport is "the target's pixel
  dimensions" and the right edge is "frameWidth / lumaTextureWidth", that is
  \<open>(mWidth, mHeight)\<close> and \<open>mWidth\<close>. The quotient is \<open>None\<close> when the luma texture's
  width is 0, where the C++ division gives no finite number.
\<close>

definition setUniforms :: "GlslProg \<Rightarrow> GlslProg" where
  "setUniforms p = p\<lparr> texUnit1 := 0, texUnit2 := 1, texUnit3 := 2,
                      brightness := 0, gamma := (1, 1, 1), contrast := 1 \<rparr>"

definition lowerRightX :: "int \<Rightarrow> int \<Rightarrow> double option" where
  "lowerRightX width yWidth =
     (if yWidth = 0 then None else Some (1 * real_of_int width / real_of_int yWidth))"

definition renderToFbo ::
  "('d, 'a, 't) MovieGl \<Rightarrow> error + ('d, 'a, 't) MovieGl" where
  "renderToFbo m =
     (case mFbo m of None \<Rightarrow> Inl NullPointerDereference | Some fbo \<Rightarrow>
      case mShader m of None \<Rightarrow> Inl NullPointerDereference | Some prog \<Rightarrow>
      case mYPlane m of None \<Rightarrow> Inl NullPointerDereference | Some y \<Rightarrow>
      case mUPlane m of None \<Rightarrow> Inl NullPointerDereference | Some u \<Rightarrow>
      case mVPlane m of None \<Rightarrow> Inl NullPointerDereference | Some v \<Rightarrow>
        (let prog' = setUniforms prog;
             call = \<lparr> dcProgram = prog', dcUnit0 = texName y, dcUnit1 = texName u,
                      dcUnit2 = texName v, dcViewport = (mWidth m, mHeight m),
                      dcUpperLeftTexCoord = (0, 1),
                      dcLowerRightTexCoord = (lowerRightX (mWidth m) (texWidth y), 0) \<rparr>;
             fbo' = fbo\<lparr> getColorTexture := (getColorTexture fbo)\<lparr> texData := Rendered call \<rparr> \<rparr>
         in Inr (m\<lparr> mShader := Some prog', mFbo := Some fbo',
                    mTexture := Some (getColorTexture fbo') \<rparr>)))"

subsection \<open>The tick\<close>

text \<open>
  \<open>None\<close>: an audio loop never ends. \<open>Some (Inl e)\<close>: the tick stops with \<open>e\<close>.
  \<open>Some (Inr m')\<close>: the tick returns and leaves the object as \<open>m'\<close>.
\<close>

definition presentVideo ::
  "VideoFrame \<Rightarrow> ('d, 'a, 't) MovieGl \<Rightarrow> error + ('d, 'a, 't) MovieGl" where
  "presentVideo vf m = renderToFbo (uploadPlanes vf (resizeTextures vf m))"

definition afterVideo ::
  "('d, 't) VideoLoop \<Rightarrow> ('d, 'a, 't) MovieGl \<Rightarrow> ('d, 'a, 't) MovieGl" where
  "afterVideo s m = m\<lparr> mMovieDecoder := vlDecoder s, mUpdateTimer := vlTimer s, logV := vlLog s \<rparr>"

definition update ::
  "'d MovieDecoder \<Rightarrow> 'a AudioRenderer \<Rightarrow> 't Timer \<Rightarrow> ('d, 'a, 't) MovieGl
     \<Rightarrow> (error + ('d, 'a, 't) MovieGl) option" where
  "update D A T m =
     (if \<not> isInitialized D (mMovieDecoder m) then Some (Inr m)
      else
        (case decodeAudio D A T m of
           None \<Rightarrow> None
         | Some (m1, currentPts) \<Rightarrow>
             (let s = decodeVideo D T currentPts m1
              in if hasVideo s then Some (presentVideo (videoFrame s) (afterVideo s m1))
                 else Some (Inr (afterVideo s m1)))))"

section \<open>Queries\<close>

definition getTexture :: "('d, 'a, 't) MovieGl \<Rightarrow> Texture option" where
  "getTexture m = mTexture m"

definition checkNewFrame ::
  "'d MovieDecoder \<Rightarrow> 'a AudioRenderer \<Rightarrow> ('d, 'a, 't) MovieGl \<Rightarrow> bool" where
  "checkNewFrame D A m =
     (case mAudioRenderer m of
        None \<Rightarrow> False
      | Some a \<Rightarrow>
          (if \<not> isInitialized D (mMovieDecoder m) then False
           else getVideoClock D (mMovieDecoder m) < getCurrentPts A a))"

text \<open>
  The remaining queries forward to the decoder. \<open>getCurrentTime\<close> and \<open>getFramerate\<close>
  narrow the decoder's \<open>double\<close> to \<open>float\<close>; the rounding of that cast is outside the
  model.
\<close>

definition getCurrentTime :: "'d MovieDecoder \<Rightarrow> ('d, 'a, 't) MovieGl \<Rightarrow> double" where
  "getCurrentTime D m = getVideoClock D (mMovieDecoder m)"

definition getFramerate :: "'d MovieDecoder \<Rightarrow> ('d, 'a, 't) MovieGl \<Rightarrow> double" where
  "getFramerate D m = getFramesPerSecond D (mMovieDecoder m)"

definition getNumFrames :: "'d MovieDecoder \<Rightarrow> ('d, 'a, 't) MovieGl \<Rightarrow> nat" where
  "getNumFrames D m = getNumberOfFrames D (mMovieDecoder m)"

definition isPlaying :: "'d MovieDecoder \<Rightarrow> ('d, 'a, 't) MovieGl \<Rightarrow> bool" where
  "isPlaying D m = decIsPlaying D (mMovieDecoder m)"

definition isDone :: "'d MovieDecoder \<Rightarrow> ('d, 'a, 't) MovieGl \<Rightarrow> bool" where
  "isDone D m = decIsDone D (mMovieDecoder m)"

section \<open>Transport\<close>

text \<open>
  The decoder's members are named \<open>start\<close>, \<open>stop\<close>, \<open>pause\<close>, \<open>resume\<close>,
  \<open>seekToTime\<close>, \<open>loop\<close>, \<open>isPlaying\<close> and \<open>isDone\<close> in the source; here they carry the
  prefix \<open>dec\<close>, and those of the audio path the prefix \<open>ar\<close>, to keep them apart
  from the members of \<open>MovieGl\<close>. \<open>getFrameWidth\<close> and \<open>getFrameHeight\<close> stand for the
  values after the \<open>static_cast<int32_t>\<close> of \<open>play\<close>.
\<close>

definition play ::
  "'d MovieDecoder \<Rightarrow> 't Timer \<Rightarrow> ('d, 'a, 't) MovieGl \<Rightarrow> ('d, 'a, 't) MovieGl" where
  "play D T m =
     (if \<not> isInitialized D (mMovieDecoder m) then m
      else
        (let d = decStart D (mMovieDecoder m)
         in m\<lparr> mMovieDecoder := d, mWidth := getFrameWidth D d, mHeight := getFrameHeight D d,
               mDuration := getDuration D d, mUpdateTimer := tmStart T 0 (mUpdateTimer m) \<rparr>))"

definition stop ::
  "'d MovieDecoder \<Rightarrow> 'a AudioRenderer \<Rightarrow> 't Timer \<Rightarrow> ('d, 'a, 't) MovieGl
     \<Rightarrow> ('d, 'a, 't) MovieGl" where
  "stop D A T m =
     (if \<not> isInitialized D (mMovieDecoder m) then m
      else m\<lparr> mMovieDecoder := decStop D (mMovieDecoder m),
              mAudioRenderer := map_option (arStop A) (mAudioRenderer m),
              mUpdateTimer := tmStop T (mUpdateTimer m) \<rparr>)"

definition pause ::
  "'d MovieDecoder \<Rightarrow> 'a AudioRenderer \<Rightarrow> 't Timer \<Rightarrow> ('d, 'a, 't) MovieGl
     \<Rightarrow> ('d, 'a, 't) MovieGl" where
  "pause D A T m =
     (if \<not> isInitialized D (mMovieDecoder m) then m
      else m\<lparr> mMovieDecoder := decPause D (mMovieDecoder m),
              mAudioRenderer := map_option (arPause A) (mAudioRenderer m),
              mUpdateTimer := tmStop T (mUpdateTimer m) \<rparr>)"

definition resume ::
  "'d MovieDecoder \<Rightarrow> 'a AudioRenderer \<Rightarrow> 't Timer \<Rightarrow> ('d, 'a, 't) MovieGl
     \<Rightarrow> ('d, 'a, 't) MovieGl" where
  "resume D A T m =
     (if \<not> isInitialized D (mMovieDecoder m) then m
      else
        (let d = decResume D (mMovieDecoder m)
         in m\<lparr> mMovieDecoder := d,
               mAudioRenderer := map_option (arPlay A) (mAudioRenderer m),
               mUpdateTimer := tmStart T (getVideoClock D d) (mUpdateTimer m) \<rparr>))"

text \<open>
  \<open>seekToTime( float seconds )\<close>: the argument is widened to \<open>double\<close>, which changes
  no value.
\<close>

definition seekToTime ::
  "'d MovieDecoder \<Rightarrow> 'a AudioRenderer \<Rightarrow> 't Timer \<Rightarrow> double \<Rightarrow> ('d, 'a, 't) MovieGl
     \<Rightarrow> ('d, 'a, 't) MovieGl" where
  "seekToTime D A T seconds m =
     (if \<not> isInitialized D (mMovieDecoder m) then m
      else m\<lparr> mAudioRenderer := map_option (arPlay A \<circ> clearBuffers A) (mAudioRenderer m),
              mMovieDecoder := decSeekToTime D seconds (mMovieDecoder m),
              mUpdateTimer := tmStart T seconds (mUpdateTimer m),
              mTexture := None \<rparr>)"

definition setLoop ::
  "'d MovieDecoder \<Rightarrow> bool \<Rightarrow> ('d, 'a, 't) MovieGl \<Rightarrow> ('d, 'a, 't) MovieGl" where
  "setLoop D loop m =
     (if \<not> isInitialized D (mMovieDecoder m) then m
      else m\<lparr> mMovieDecoder := decLoop D loop (mMovieDecoder m) \<rparr>)"

text \<open>A caller's sequence of operations on the object.\<close>

datatype operation = Update | Play | Stop | Pause | Resume | SeekToTime double | SetLoop bool

definition perform ::
  "'d MovieDecoder \<Rightarrow> 'a AudioRenderer \<Rightarrow> 't Timer \<Rightarrow> operation \<Rightarrow> ('d, 'a, 't) MovieGl
     \<Rightarrow> (error + ('d, 'a, 't) MovieGl) option" where
  "perform D A T operation m =
     (case operation of
        Update \<Rightarrow> update D A T m
      | Play \<Rightarrow> Some (Inr (play D T m))
      | Stop \<Rightarrow> Some (Inr (stop D A T m))
      | Pause \<Rightarrow> Some (Inr (pause D A T m))
      | Resume \<Rightarrow> Some (Inr (resume D A T m))
      | SeekToTime seconds \<Rightarrow> Some (Inr (seekToTime D A T seconds m))
      | SetLoop loop \<Rightarrow> Some (Inr (setLoop D loop m)))"

fun performAll ::
  "'d MovieDecoder \<Rightarrow> 'a AudioRenderer \<Rightarrow> 't Timer \<Rightarrow> operation list \<Rightarrow> ('d, 'a, 't) MovieGl
     \<Rightarrow> (error + ('d, 'a, 't) MovieGl) option" where
  "performAll D A T [] m = Some (Inr m)"
| "performAll D A T (operation # rest) m =
     (case perform D A T operation m of
        None \<Rightarrow> None
      | Some (Inl e) \<Rightarrow> Some (Inl e)
      | Some (Inr m') \<Rightarrow> performAll D A T rest m')"

text \<open>
  The video frame a tick accepts: \<open>None\<close> when the tick does not return, \<open>Some None\<close>
  when it accepts no frame, \<open>Some (Some vf)\<close> when its video loop ends with \<open>hasVideo\<close>
  and the frame \<open>vf\<close>.
\<close>

definition acceptedFrame ::
  "'d MovieDecoder \<Rightarrow> 'a AudioRenderer \<Rightarrow> 't Timer \<Rightarrow> ('d, 'a, 't) MovieGl
     \<Rightarrow> VideoFrame option option" where
  "acceptedFrame D A T m =
     (if \<not> isInitialized D (mMovieDecoder m) then Some None
      else
        (case decodeAudio D A T m of
           None \<Rightarrow> None
         | Some (m1, currentPts) \<Rightarrow>
             (let s = decodeVideo D T currentPts m1
              in if hasVideo s then Some (Some (videoFrame s)) else Some None)))"

definition acceptsVideo ::
  "'d MovieDecoder \<Rightarrow> 'a AudioRenderer \<Rightarrow> 't Timer \<Rightarrow> ('d, 'a, 't) MovieGl \<Rightarrow> bool option" where
  "acceptsVideo D A T m = map_option (\<lambda>f. f \<noteq> None) (acceptedFrame D A T m)"




section \<open>The fragment program (lines 308 to 334)\<close>

text \<open>
  \<open>t1\<close>, \<open>t2\<close>, \<open>t3\<close> are the values \<open>texture( texUnitN, vertTexCoord0.st ).x\<close> read from
  the three planes. GLSL leaves \<open>pow( x, y )\<close> undefined for \<open>x < 0\<close>, and for \<open>x = 0\<close>
  with \<open>y \<le> 0\<close>: \<open>None\<close>.
\<close>

type_synonym vec3 = "double \<times> double \<times> double"

definition dot :: "vec3 \<Rightarrow> vec3 \<Rightarrow> double" where
  "dot a b = (case a of (a1, a2, a3) \<Rightarrow> case b of (b1, b2, b3) \<Rightarrow> a1 * b1 + a2 * b2 + a3 * b3)"

definition glslPow :: "double \<Rightarrow> double \<Rightarrow> double option" where
  "glslPow x y = (if x < 0 \<or> (x = 0 \<and> y \<le> 0) then None else Some (x powr y))"

definition yuvSample :: "GlslProg \<Rightarrow> double \<Rightarrow> double \<Rightarrow> double \<Rightarrow> vec3" where
  "yuvSample p t1 t2 t3 = (t1 - 16.0 / 256.0 + brightness p, t2 - 128.0 / 256.0, t3 - 128.0 / 256.0)"

definition baseMatrix :: "vec3 \<Rightarrow> vec3" where
  "baseMatrix yuv =
     (dot yuv (1.164, 0.000, 1.596) - 0.5,
      dot yuv (1.164, - 0.391, - 0.813) - 0.5,
      dot yuv (1.164, 2.018, 0.000) - 0.5)"

definition contrastStep :: "GlslProg \<Rightarrow> vec3 \<Rightarrow> vec3" where
  "contrastStep p rgb =
     (case rgb of (r, g, b) \<Rightarrow> (r * contrast p + 0.5, g * contrast p + 0.5, b * contrast p + 0.5))"

definition gammaStep :: "GlslProg \<Rightarrow> vec3 \<Rightarrow> double option \<times> double option \<times> double option" where
  "gammaStep p rgb =
     (case rgb of (r, g, b) \<Rightarrow> case gamma p of (gr, gg, gb) \<Rightarrow>
        (glslPow r gr, glslPow g gg, glslPow b gb))"

definition fragmentMain ::
  "GlslProg \<Rightarrow> double \<Rightarrow> double \<Rightarrow> double \<Rightarrow> double option \<times> double option \<times> double option" where
  "fragmentMain p t1 t2 t3 = gammaStep p (contrastStep p (baseMatrix (yuvSample p t1 t2 t3)))"


section \<open>Vocabulary of the properties\<close>

text \<open>One pull of a video frame, and of an audio frame, on the pair of frame and decoder.\<close>

definition pullVideo :: "'d MovieDecoder \<Rightarrow> VideoFrame \<times> 'd \<Rightarrow> VideoFrame \<times> 'd" where
  "pullVideo D fd = (let r = decodeVideoFrame D (snd fd) (fst fd) in (fst (snd r), snd (snd r)))"

definition pullAudio :: "'d MovieDecoder \<Rightarrow> AudioFrame \<times> 'd \<Rightarrow> AudioFrame \<times> 'd" where
  "pullAudio D fd = (let r = decodeAudioFrame D (snd fd) (fst fd) in (fst (snd r), snd (snd r)))"

definition audioPullSucceeds :: "'d MovieDecoder \<Rightarrow> AudioFrame \<times> 'd \<Rightarrow> bool" where
  "audioPullSucceeds D fd = fst (decodeAudioFrame D (snd fd) (fst fd))"

text \<open>The members that only the graphics part of a tick, the constructor and seek write.\<close>

definition sameGraphics :: "('d, 'a, 't) MovieGl \<Rightarrow> ('d, 'a, 't) MovieGl \<Rightarrow> bool" where
  "sameGraphics m1 m \<longleftrightarrow>
     mYPlane m1 = mYPlane m \<and> mUPlane m1 = mUPlane m \<and> mVPlane m1 = mVPlane m \<and>
     mFbo m1 = mFbo m \<and> mShader m1 = mShader m \<and> mTexture m1 = mTexture m \<and>
     mWidth m1 = mWidth m \<and> mHeight m1 = mHeight m \<and> glNextName m1 = glNextName m"

text \<open>
  A sequence of operations in which no tick accepts a video frame, checked along the
  states the sequence goes through.
\<close>

fun acceptsNoVideo ::
  "'d MovieDecoder \<Rightarrow> 'a AudioRenderer \<Rightarrow> 't Timer \<Rightarrow> operation list \<Rightarrow> ('d, 'a, 't) MovieGl
     \<Rightarrow> bool" where
  "acceptsNoVideo D A T [] m = True"
| "acceptsNoVideo D A T (operation # rest) m =
     ((operation \<noteq> Update \<or> acceptsVideo D A T m = Some False) \<and>
      (case perform D A T operation m of
         Some (Inr m') \<Rightarrow> acceptsNoVideo D A T rest m'
       | _ \<Rightarrow> True))"

section \<open>Concrete collaborators for the examples\<close>

text \<open>
  A decoder that plays a script: each successful video pull hands out the next frame
  and moves the video clock to the time stamp beside it; pulls fail when the script is
  used up.
\<close>

record ScriptedDecoder =
  sdClock :: double
  sdVideo :: "(VideoFrame \<times> double) list"
  sdAudio :: "AudioFrame list"
  sdFramesPerSecond :: double
  sdHasAudio :: bool

definition scripted :: "ScriptedDecoder MovieDecoder" where
  "scripted =
     \<lparr> isInitialized = (\<lambda>d. True),
       hasAudio = sdHasAudio,
       getAudioFormat = (\<lambda>d. (AudioFormat 2 16 44100, d)),
       decodeAudioFrame = (\<lambda>d af. case sdAudio d of [] \<Rightarrow> (False, af, d)
                                    | f # fs \<Rightarrow> (True, f, d\<lparr> sdAudio := fs \<rparr>)),
       decodeVideoFrame = (\<lambda>d vf. case sdVideo d of [] \<Rightarrow> (False, vf, d)
                                    | (f, c) # fs \<Rightarrow> (True, f, d\<lparr> sdVideo := fs, sdClock := c \<rparr>)),
       getVideoClock = sdClock,
       getFramesPerSecond = sdFramesPerSecond,
       getNumberOfFrames = (\<lambda>d. length (sdVideo d)),
       getFrameWidth = (\<lambda>d. 640),
       getFrameHeight = (\<lambda>d. 480),
       getDuration = (\<lambda>d. 10),
       decIsPlaying = (\<lambda>d. True),
       decIsDone = (\<lambda>d. sdVideo d = []),
       decStart = (\<lambda>d. d),
       decStop = (\<lambda>d. d),
       decPause = (\<lambda>d. d),
       decResume = (\<lambda>d. d),
       decSeekToTime = (\<lambda>t d. d\<lparr> sdClock := t \<rparr>),
       decLoop = (\<lambda>b d. d) \<rparr>"

text \<open>An audio path with room for two frames, whose position is the first queued frame's.\<close>

definition bufferedAudio :: "(AudioFrame list) AudioRenderer" where
  "bufferedAudio =
     \<lparr> arCreate = [],
       setFormat = (\<lambda>fmt a. a),
       hasBufferSpace = (\<lambda>a. length a < 2),
       queueFrame = (\<lambda>f a. a @ [f]),
       flushBuffers = (\<lambda>a. a),
       getCurrentPts = (\<lambda>a. case a of [] \<Rightarrow> 0 | f # fs \<Rightarrow> getPts f),
       clearBuffers = (\<lambda>a. []),
       arStop = (\<lambda>a. a),
       arPause = (\<lambda>a. a),
       arPlay = (\<lambda>a. a) \<rparr>"

text \<open>A timer read at the instant it was started: its seconds are the last offset.\<close>

definition heldTimer :: "double Timer" where
  "heldTimer = \<lparr> tmNew = 0, tmStart = (\<lambda>offset t. offset), tmStop = (\<lambda>t. t),
                 getSeconds = (\<lambda>t. t) \<rparr>"

definition frame640 :: VideoFrame where
  "frame640 = \<lparr> getWidth = 640, getHeight = 480, getYLineSize = 644, getULineSize = 322,
     getVLineSize = 322, getYPlane = [235], getUPlane = [128], getVPlane = [128] \<rparr>"

text \<open>
  A movie without audio path at 30 frames per second, with a compiled program: the timer
  reads \<open>timer\<close>, the decoder's video clock is \<open>clock\<close>, and \<open>script\<close> is what the
  decoder will hand out.
\<close>

definition movieAt ::
  "double \<Rightarrow> double \<Rightarrow> (VideoFrame \<times> double) list
     \<Rightarrow> (ScriptedDecoder, AudioFrame list, double) MovieGl" where
  "movieAt timer clock script =
     \<lparr> mWidth = 0, mHeight = 0, mDuration = 0, mAudioRenderer = None,
       mMovieDecoder = \<lparr> sdClock = clock, sdVideo = script, sdAudio = [],
                         sdFramesPerSecond = 30, sdHasAudio = False \<rparr>,
       mUpdateTimer = timer,
       mYPlane = None, mUPlane = None, mVPlane = None, mFbo = None,
       mShader = Some GlslProg_create, mTexture = None, glNextName = 0,
       console = [], logV = [] \<rparr>"


definition frame320 :: VideoFrame where
  "frame320 = \<lparr> getWidth = 320, getHeight = 240, getYLineSize = 320, getULineSize = 160,
     getVLineSize = 160, getYPlane = [16], getUPlane = [128], getVPlane = [128] \<rparr>"

definition scriptedAt :: "double \<Rightarrow> (VideoFrame \<times> double) list \<Rightarrow> ScriptedDecoder" where
  "scriptedAt clock script = \<lparr> sdClock = clock, sdVideo = script, sdAudio = [],
                                sdFramesPerSecond = 30, sdHasAudio = False \<rparr>"

text \<open>
  The locals of the video loop in the middle of a tick of such a movie: \<open>accepted\<close> is
  \<open>hasVideo\<close>, \<open>previous\<close> the last observed video clock.
\<close>

definition loopAt ::
  "bool \<Rightarrow> int \<Rightarrow> double \<Rightarrow> double \<Rightarrow> double \<Rightarrow> (VideoFrame \<times> double) list
     \<Rightarrow> (ScriptedDecoder, double) VideoLoop" where
  "loopAt accepted n timer previous clock script =
     \<lparr> hasVideo = accepted, count = n, videoFrame = frame320, currentVideoClock = previous,
       vlDecoder = \<lparr> sdClock = clock, sdVideo = script, sdAudio = [],
                     sdFramesPerSecond = 30, sdHasAudio = False \<rparr>,
       vlTimer = timer, vlLog = [] \<rparr>"


text \<open>Movies that show a texture, with and without an audio path, and a list of operations.\<close>

definition staleTexture :: Texture where
  "staleTexture = Texture2d_create 640 480 3"

definition audioMovie :: "(ScriptedDecoder, AudioFrame list, double) MovieGl" where
  "audioMovie = (movieAt 2 2 [(frame640, 5.01)])
                  \<lparr> mAudioRenderer := Some [AudioFrame_init], mTexture := Some staleTexture \<rparr>"

definition silentMovie :: "(ScriptedDecoder, AudioFrame list, double) MovieGl" where
  "silentMovie = (movieAt 2 2 [(frame640, 5.01)]) \<lparr> mTexture := Some staleTexture \<rparr>"

definition quietOperations :: "operation list" where
  "quietOperations = [Play, Update, SetLoop True, Pause, Resume, Stop, SeekToTime 1]"

text \<open>A movie whose audio path has consumed up to 3 while the video clock is at 2.\<close>

definition playingAudio :: "(ScriptedDecoder, AudioFrame list, double) MovieGl" where
  "playingAudio = (movieAt 0 2 []) \<lparr> mAudioRenderer := Some [\<lparr> getSamples = [], getPts = 3 \<rparr>] \<rparr>"

text \<open>A stream with two audio frames and no video, for a movie built without audio path.\<close>

definition audioStream :: ScriptedDecoder where
  "audioStream = \<lparr> sdClock = 3, sdVideo = [], sdAudio = [AudioFrame_init, AudioFrame_init],
                   sdFramesPerSecond = 30, sdHasAudio = True \<rparr>"

text \<open>
  A decoder that never runs dry and never moves its video clock from 0: its state counts
  the video pulls made.
\<close>

definition endless :: "nat MovieDecoder" where
  "endless =
     \<lparr> isInitialized = (\<lambda>d. True),
       hasAudio = (\<lambda>d. False),
       getAudioFormat = (\<lambda>d. (AudioFormat 2 16 44100, d)),
       decodeAudioFrame = (\<lambda>d af. (False, af, d)),
       decodeVideoFrame = (\<lambda>d vf. (True, frame640, Suc d)),
       getVideoClock = (\<lambda>d. 0),
       getFramesPerSecond = (\<lambda>d. 30),
       getNumberOfFrames = (\<lambda>d. 0),
       getFrameWidth = (\<lambda>d. 640),
       getFrameHeight = (\<lambda>d. 480),
       getDuration = (\<lambda>d. 10),
       decIsPlaying = (\<lambda>d. True),
       decIsDone = (\<lambda>d. False),
       decStart = (\<lambda>d. d),
       decStop = (\<lambda>d. d),
       decPause = (\<lambda>d. d),
       decResume = (\<lambda>d. d),
       decSeekToTime = (\<lambda>t d. d),
       decLoop = (\<lambda>b d. d) \<rparr>"

definition endlessMovie :: "(nat, AudioFrame list, double) MovieGl" where
  "endlessMovie =
     \<lparr> mWidth = 0, mHeight = 0, mDuration = 0, mAudioRenderer = None,
       mMovieDecoder = 0, mUpdateTimer = 1,
       mYPlane = None, mUPlane = None, mVPlane = None, mFbo = None,
       mShader = Some GlslProg_create, mTexture = None, glNextName = 0,
       console = [], logV = [] \<rparr>"



text \<open>A stream with two audio frames and one video frame due at once.\<close>

definition audioVideoStream :: ScriptedDecoder where
  "audioVideoStream = \<lparr> sdClock = 0, sdVideo = [(frame640, 0.02)],
                        sdAudio = [AudioFrame_init, AudioFrame_init],
                        sdFramesPerSecond = 30, sdHasAudio = True \<rparr>"

section \<open>The double arithmetic at the values of the examples\<close>

text \<open>
  At 30 frames per second \<open>1. / 30\<close> rounds to \<open>4803839602528529 / 2^57\<close>, just below
  1/30; half of it is exact; and added to the clock values 0, 1, 5 and 10 it rounds as
  listed.
\<close>

lemma isDouble_examples:
  "isDouble 0" "isDouble 1" "isDouble 5" "isDouble 10"
  unfolding isDouble_def
     apply (simp add: roundDouble_def)
    apply (simp_all only: roundDouble_def Let_def)
    apply (simp_all add: binade_def binadeUp.simps binadeDown.simps)
    apply (simp_all add: twoPower_def)
    apply (simp_all add: roundToEven_def Let_def)
  done

lemma dadd_zero: "isDouble x \<Longrightarrow> dadd x (Finite 0) = Finite x"
  by (simp add: dadd_def isDouble_def)

lemma frameDuration_30: "ddivOne 30 = Finite (4803839602528529 / 144115188075855872)"
  unfolding ddivOne_def
  apply (simp only: roundDouble_def Let_def)
  apply (simp add: binade_def binadeUp.simps binadeDown.simps)
  apply (simp add: twoPower_def)
  apply (simp add: roundToEven_def Let_def)
  done

lemma halfFrame_30: "halfOf (ddivOne 30) = Finite (4803839602528529 / 288230376151711744)"
  unfolding frameDuration_30 halfOf_def
  apply (simp only: roundDouble_def Let_def xdouble.case)
  apply (simp add: binade_def binadeUp.simps binadeDown.simps)
  apply (simp add: twoPower_def)
  apply (simp add: roundToEven_def Let_def)
  done

lemma threshold_30:
  "dadd 0 (halfOf (ddivOne 30)) = Finite (4803839602528529 / 288230376151711744)"
  "dadd 1 (halfOf (ddivOne 30)) = Finite (1144664905290001 / 1125899906842624)"
  "dadd 5 (halfOf (ddivOne 30)) = Finite (5648264532660497 / 1125899906842624)"
  "dadd 10 (halfOf (ddivOne 30)) = Finite (5638882033436809 / 562949953421312)"
  unfolding halfFrame_30 dadd_def
     apply (simp_all only: roundDouble_def Let_def xdouble.case)
     apply (simp_all add: binade_def binadeUp.simps binadeDown.simps)
     apply (simp_all add: twoPower_def)
     apply (simp_all add: roundToEven_def Let_def)
  done

lemmas doubleEval = dless_def threshold_30 dadd_zero isDouble_examples

section \<open>Properties of the video loop\<close>

lemma videoBody_count: "count (fst (videoBody D T s)) = count s"
  by (simp add: videoBody_def Let_def)

lemma videoBody_pull:
  "(videoFrame (fst (videoBody D T s)), vlDecoder (fst (videoBody D T s)))
     = pullVideo D (videoFrame s, vlDecoder s)"
  by (simp add: videoBody_def pullVideo_def Let_def)

lemma drainVideo_stops:
  "\<not> (videoClockBelow D p f s \<and> count s < 100) \<Longrightarrow>
     videoFrame (drainVideo D T p f s) = videoFrame s \<and>
     vlDecoder (drainVideo D T p f s) = vlDecoder s \<and>
     hasVideo (drainVideo D T p f s) = hasVideo s \<and>
     vlTimer (drainVideo D T p f s) = vlTimer s \<and>
     count (drainVideo D T p f s) \<le> max (count s) 100 + 1"
  by (subst drainVideo.simps, subst (2) drainVideo.simps, subst (3) drainVideo.simps,
      subst (4) drainVideo.simps, subst (5) drainVideo.simps) auto

lemma drainVideo_break:
  "videoClockBelow D p f s \<Longrightarrow> count s < 100 \<Longrightarrow>
   \<not> snd (videoBody D T (s\<lparr> count := count s + 1 \<rparr>)) \<Longrightarrow>
     drainVideo D T p f s = fst (videoBody D T (s\<lparr> count := count s + 1 \<rparr>))"
  by (subst drainVideo.simps) simp

lemma drainVideo_continue:
  "videoClockBelow D p f s \<Longrightarrow> count s < 100 \<Longrightarrow>
   snd (videoBody D T (s\<lparr> count := count s + 1 \<rparr>)) \<Longrightarrow>
     drainVideo D T p f s
       = drainVideo D T p f (fst (videoBody D T (s\<lparr> count := count s + 1 \<rparr>)))"
  by (subst drainVideo.simps) simp

lemma drainVideo_pulls:
  "\<exists>n. n \<le> nat (100 - count s) \<and>
     (videoFrame (drainVideo D T p f s), vlDecoder (drainVideo D T p f s))
       = (pullVideo D ^^ n) (videoFrame s, vlDecoder s)"
proof (induction D T p f s rule: drainVideo.induct)
  case (1 D T p f s)
  let ?s1 = "s\<lparr> count := count s + 1 \<rparr>"
  let ?b = "videoBody D T ?s1"
  show ?case
  proof (cases "videoClockBelow D p f s \<and> count s < 100")
    case False
    from drainVideo_stops [OF this] show ?thesis
      by (intro exI [of _ 0]) simp
  next
    case True
    have step: "(videoFrame (fst ?b), vlDecoder (fst ?b)) = pullVideo D (videoFrame s, vlDecoder s)"
      using videoBody_pull [of D T ?s1] by simp
    have cnt: "count (fst ?b) = count s + 1"
      by (simp add: videoBody_count)
    show ?thesis
    proof (cases "snd ?b")
      case False
      with True have "drainVideo D T p f s = fst ?b"
        by (simp add: drainVideo_break)
      moreover from True have "1 \<le> nat (100 - count s)"
        by linarith
      ultimately show ?thesis using step
        by (intro exI [of _ 1]) simp
    next
      case cont: True
      with True have eq: "drainVideo D T p f s = drainVideo D T p f (fst ?b)"
        by (simp add: drainVideo_continue)
      from "1.IH" [OF _ _ cont] True
      obtain n where n: "n \<le> nat (100 - count (fst ?b))"
        "(videoFrame (drainVideo D T p f (fst ?b)), vlDecoder (drainVideo D T p f (fst ?b)))
           = (pullVideo D ^^ n) (videoFrame (fst ?b), vlDecoder (fst ?b))"
        by blast
      show ?thesis
      proof (intro exI [of _ "Suc n"] conjI)
        show "Suc n \<le> nat (100 - count s)"
          using n(1) cnt True by linarith
        show "(videoFrame (drainVideo D T p f s), vlDecoder (drainVideo D T p f s))
           = (pullVideo D ^^ Suc n) (videoFrame s, vlDecoder s)"
          unfolding eq n(2) step by (simp add: funpow_swap1)
      qed
    qed
  qed
qed

lemma drainVideo_count:
  "count (drainVideo D T p f s) \<le> max (count s) 100 + 1"
proof (induction D T p f s rule: drainVideo.induct)
  case (1 D T p f s)
  let ?b = "videoBody D T (s\<lparr> count := count s + 1 \<rparr>)"
  show ?case
  proof (cases "videoClockBelow D p f s \<and> count s < 100")
    case False
    from drainVideo_stops [OF this] show ?thesis by simp
  next
    case True
    have cnt: "count (fst ?b) = count s + 1"
      by (simp add: videoBody_count)
    show ?thesis
    proof (cases "snd ?b")
      case False
      with True cnt show ?thesis
        by (simp add: drainVideo_break)
    next
      case cont: True
      from "1.IH" [OF _ _ cont] True cnt cont show ?thesis
        by (simp add: drainVideo_continue)
    qed
  qed
qed



text \<open>
  C3. Whatever the decoder does, and in particular when it reports a time stamp below the
  threshold at every test, the video loop of one tick returns, and it has pulled at most
  100 frames when it does: the frame and the decoder it leaves are those after \<open>n\<close>
  pulls for some \<open>n \<le> 100\<close>, and the counter ends at 101 at most.
\<close>

theorem video_drain_bounded:
  "\<exists>n. n \<le> 100 \<and>
     (videoFrame (decodeVideo D T currentPts m), vlDecoder (decodeVideo D T currentPts m))
       = (pullVideo D ^^ n) (VideoFrame_init, mMovieDecoder m) \<and>
     count (decodeVideo D T currentPts m) \<le> 101"
proof -
  let ?s0 = "\<lparr> hasVideo = False, count = 0, videoFrame = VideoFrame_init,
               currentVideoClock = getVideoClock D (mMovieDecoder m),
               vlDecoder = mMovieDecoder m, vlTimer = mUpdateTimer m, vlLog = logV m \<rparr>"
  let ?f = "ddivOne (getFramesPerSecond D (mMovieDecoder m))"
  from drainVideo_pulls [of ?s0 D T currentPts ?f]
  obtain n where "n \<le> 100"
    "(videoFrame (drainVideo D T currentPts ?f ?s0), vlDecoder (drainVideo D T currentPts ?f ?s0))
       = (pullVideo D ^^ n) (VideoFrame_init, mMovieDecoder m)"
    by auto
  moreover have "count (drainVideo D T currentPts ?f ?s0) \<le> 101"
    using drainVideo_count [of D T currentPts ?f ?s0] by simp
  ultimately show ?thesis
    unfolding decodeVideo_def by blast
qed

lemma drainVideo_endless:
  "dless 0 (dadd 1 (halfOf f)) \<Longrightarrow> count s \<le> 100 \<Longrightarrow> currentVideoClock s = 0 \<Longrightarrow>
     vlDecoder (drainVideo endless T 1 f s) = vlDecoder s + nat (100 - count s) \<and>
     count (drainVideo endless T 1 f s) = 101"
proof (induction endless T "1 :: real" f s rule: drainVideo.induct)
  case (1 T f s)
  let ?b = "videoBody endless T (s\<lparr> count := count s + 1 \<rparr>)"
  have below: "videoClockBelow endless 1 f s"
    using "1.prems"(1) by (simp add: videoClockBelow_def endless_def dadd_zero isDouble_examples dless_def)
  have body: "snd ?b" "vlDecoder (fst ?b) = Suc (vlDecoder s)" "count (fst ?b) = count s + 1"
    "currentVideoClock (fst ?b) = 0"
    using "1.prems"(3) by (simp_all add: videoBody_def endless_def Let_def)
  show ?case
  proof (cases "count s < 100")
    case False
    with "1.prems" have "count s = 100" by simp
    with below show ?thesis
      by (subst drainVideo.simps, subst (2) drainVideo.simps) simp
  next
    case True
    from "1.hyps" [OF below True body(1)] body "1.prems" True
    have "vlDecoder (drainVideo endless T 1 f (fst ?b)) = vlDecoder (fst ?b) + nat (100 - count (fst ?b))
       \<and> count (drainVideo endless T 1 f (fst ?b)) = 101"
      by simp
    moreover have "drainVideo endless T 1 f s = drainVideo endless T 1 f (fst ?b)"
      using drainVideo_continue [OF below True body(1)] .
    moreover have "Suc (vlDecoder s) + nat (100 - (count s + 1)) = vlDecoder s + nat (100 - count s)"
      using True "1.prems" by linarith
    ultimately show ?thesis
      using body by simp
  qed
qed

text \<open>
  The example of C3: against the decoder that is always below the threshold the loop makes
  exactly 100 pulls and returns with the counter at 101.
\<close>

theorem video_drain_bounded_witness:
  "(\<exists>n. n \<le> 100 \<and>
      (videoFrame (decodeVideo endless heldTimer 1 endlessMovie),
       vlDecoder (decodeVideo endless heldTimer 1 endlessMovie))
        = (pullVideo endless ^^ n) (VideoFrame_init, mMovieDecoder endlessMovie) \<and>
      count (decodeVideo endless heldTimer 1 endlessMovie) \<le> 101) \<and>
   vlDecoder (decodeVideo endless heldTimer 1 endlessMovie) = 100 \<and>
   count (decodeVideo endless heldTimer 1 endlessMovie) = 101"
proof -
  have "vlDecoder (decodeVideo endless heldTimer 1 endlessMovie) = 100 \<and>
        count (decodeVideo endless heldTimer 1 endlessMovie) = 101"
    unfolding decodeVideo_def
    using drainVideo_endless [of "ddivOne (getFramesPerSecond endless (mMovieDecoder endlessMovie))"
        "\<lparr> hasVideo = False, count = 0, videoFrame = VideoFrame_init,
           currentVideoClock = getVideoClock endless (mMovieDecoder endlessMovie),
           vlDecoder = mMovieDecoder endlessMovie, vlTimer = mUpdateTimer endlessMovie,
           vlLog = logV endlessMovie \<rparr>" heldTimer]
    by (simp add: endless_def endlessMovie_def doubleEval)
  with video_drain_bounded [of endless heldTimer 1 endlessMovie] show ?thesis
    by blast
qed






text \<open>
  C2. When the loop pulls a frame and the decoder's video clock after the pull is strictly
  below the previously observed one (a loop-wrap), the loop ends there: the timer is
  restarted at the new, lower clock, the pulled frame is the loop's frame with
  \<open>hasVideo\<close> set, and nothing more is pulled.
\<close>

theorem loop_wrap_rebase:
  fixes D :: "'d MovieDecoder" and T :: "'t Timer" and s :: "('d, 't) VideoLoop"
  assumes "videoClockBelow D currentPts frameDuration s"
    and "count s < 100"
    and "decodeVideoFrame D (vlDecoder s) (videoFrame s) = (True, vf', d')"
    and "getVideoClock D d' < currentVideoClock s"
  shows "drainVideo D T currentPts frameDuration s =
           s\<lparr> count := count s + 1, videoFrame := vf', vlDecoder := d',
              vlLog := (if hasVideo s then vlLog s @ [getVideoClock D d'] else vlLog s),
              hasVideo := True,
              vlTimer := tmStart T (getVideoClock D d') (vlTimer s) \<rparr>"
proof -
  let ?b = "videoBody D T (s\<lparr> count := count s + 1 \<rparr>)"
  from assms(3,4) have "\<not> snd ?b"
    by (simp add: videoBody_def Let_def)
  from drainVideo_break [OF assms(1,2) this] assms(3,4) show ?thesis
    by (simp add: videoBody_def Let_def)
qed

text \<open>
  The example of C2: with the clocks 9.9 then 0.05 then 0.1 and the timer at 10, the pull
  that brings the clock to 0.05 restarts the timer at 0.05 and ends the loop; the frame
  stamped 0.1 stays with the decoder.
\<close>

theorem loop_wrap_rebase_witness:
  "videoClockBelow scripted 10 (ddivOne 30) (loopAt True 1 10 9.9 9.9 [(frame640, 0.05), (frame320, 0.1)]) \<and>
   count (loopAt True 1 10 9.9 9.9 [(frame640, 0.05), (frame320, 0.1)]) < 100 \<and>
   decodeVideoFrame scripted (vlDecoder (loopAt True 1 10 9.9 9.9 [(frame640, 0.05), (frame320, 0.1)]))
       (videoFrame (loopAt True 1 10 9.9 9.9 [(frame640, 0.05), (frame320, 0.1)]))
     = (True, frame640, scriptedAt 0.05 [(frame320, 0.1)]) \<and>
   getVideoClock scripted (scriptedAt 0.05 [(frame320, 0.1)])
     < currentVideoClock (loopAt True 1 10 9.9 9.9 [(frame640, 0.05), (frame320, 0.1)]) \<and>
   drainVideo scripted heldTimer 10 (ddivOne 30) (loopAt True 1 10 9.9 9.9 [(frame640, 0.05), (frame320, 0.1)])
     = \<lparr> hasVideo = True, count = 2, videoFrame = frame640, currentVideoClock = 9.9,
         vlDecoder = scriptedAt 0.05 [(frame320, 0.1)], vlTimer = 0.05, vlLog = [0.05] \<rparr>"
proof -
  let ?s = "loopAt True 1 10 9.9 9.9 [(frame640, 0.05), (frame320, 0.1)]"
  let ?d = "scriptedAt 0.05 [(frame320, 0.1)]"
  have h1: "videoClockBelow scripted 10 (ddivOne 30) ?s"
    by (simp add: videoClockBelow_def loopAt_def scripted_def doubleEval)
  have h2: "count ?s < 100"
    by (simp add: loopAt_def)
  have h3: "decodeVideoFrame scripted (vlDecoder ?s) (videoFrame ?s) = (True, frame640, ?d)"
    by (simp add: loopAt_def scripted_def scriptedAt_def)
  have h4: "getVideoClock scripted ?d < currentVideoClock ?s"
    by (simp add: loopAt_def scripted_def scriptedAt_def)
  from loop_wrap_rebase [OF h1 h2 h3 h4, of heldTimer]
  have "drainVideo scripted heldTimer 10 (ddivOne 30) ?s
     = \<lparr> hasVideo = True, count = 2, videoFrame = frame640, currentVideoClock = 9.9,
         vlDecoder = ?d, vlTimer = 0.05, vlLog = [0.05] \<rparr>"
    by (simp add: loopAt_def scripted_def scriptedAt_def heldTimer_def)
  with h1 h2 h3 h4 show ?thesis by blast
qed

text \<open>
  The same on a whole tick, with the clocks 9.8, 9.9, 0.05, 0.1 of the decoder and the
  timer at 10: the tick returns with the timer at 0.05, the frame stamped 0.1 still with
  the decoder, one skipped frame logged, and the frame of the wrap uploaded.
\<close>

lemma loop_rebase_example:
  "\<exists>m'. update scripted bufferedAudio heldTimer
            (movieAt 10 9.8 [(frame320, 9.9), (frame640, 0.05), (frame320, 0.1)]) = Some (Inr m') \<and>
        mUpdateTimer m' = 0.05 \<and> mMovieDecoder m' = scriptedAt 0.05 [(frame320, 0.1)] \<and>
        logV m' = [0.05] \<and> map_option texData (mYPlane m') = Some (Uploaded [235])"
  by (simp add: update_def decodeAudio_def decodeVideo_def drainVideo.simps videoClockBelow_def doubleEval
      videoBody_def scripted_def movieAt_def heldTimer_def scriptedAt_def afterVideo_def
      presentVideo_def resizeTextures_def resizeNeeded_def uploadPlanes_def renderToFbo_def
      glTexSubImage2D_def Texture2d_create_def frame640_def frame320_def Let_def)

section \<open>Properties of the tick\<close>

lemma decodeAudio_sameGraphics:
  "decodeAudio D A T m = Some (m1, pts) \<Longrightarrow> sameGraphics m1 m"
  by (auto simp add: decodeAudio_def sameGraphics_def Let_def split: option.splits if_splits)

lemma afterVideo_sameGraphics: "sameGraphics (afterVideo s m) m"
  by (simp add: afterVideo_def sameGraphics_def)

lemma sameGraphics_trans: "sameGraphics a b \<Longrightarrow> sameGraphics b c \<Longrightarrow> sameGraphics a c"
  by (simp add: sameGraphics_def)

lemma update_accepted:
  assumes "acceptedFrame D A T m = Some (Some vf)"
  shows "\<exists>m1. sameGraphics m1 m \<and> update D A T m = Some (presentVideo vf m1)"
proof -
  from assms have init: "isInitialized D (mMovieDecoder m)"
    by (simp add: acceptedFrame_def split: if_splits)
  with assms obtain m0 pts where au: "decodeAudio D A T m = Some (m0, pts)"
    by (auto simp add: acceptedFrame_def split: option.splits)
  let ?s = "decodeVideo D T pts m0"
  from assms init au have hv: "hasVideo ?s" and vf: "videoFrame ?s = vf"
    by (auto simp add: acceptedFrame_def Let_def split: if_splits)
  have "update D A T m = Some (presentVideo vf (afterVideo ?s m0))"
    using init au hv vf by (simp add: update_def Let_def)
  moreover have "sameGraphics (afterVideo ?s m0) m"
    using afterVideo_sameGraphics decodeAudio_sameGraphics [OF au] sameGraphics_trans by blast
  ultimately show ?thesis by blast
qed

lemma update_not_accepted:
  assumes "acceptedFrame D A T m = Some None"
  shows "\<exists>m'. sameGraphics m' m \<and> update D A T m = Some (Inr m')"
proof (cases "isInitialized D (mMovieDecoder m)")
  case False
  then show ?thesis
    by (auto simp add: update_def sameGraphics_def)
next
  case init: True
  with assms obtain m0 pts where au: "decodeAudio D A T m = Some (m0, pts)"
    by (auto simp add: acceptedFrame_def split: option.splits)
  let ?s = "decodeVideo D T pts m0"
  from assms init au have hv: "\<not> hasVideo ?s"
    by (auto simp add: acceptedFrame_def Let_def split: if_splits)
  have "update D A T m = Some (Inr (afterVideo ?s m0))"
    using init au hv by (simp add: update_def Let_def)
  moreover have "sameGraphics (afterVideo ?s m0) m"
    using afterVideo_sameGraphics decodeAudio_sameGraphics [OF au] sameGraphics_trans by blast
  ultimately show ?thesis by blast
qed







lemma presentVideo_returns:
  "mShader m = Some p \<Longrightarrow> \<exists>m'. presentVideo vf m = Inr m' \<and> mShader m' = Some (setUniforms p)"
  by (simp add: presentVideo_def resizeTextures_def uploadPlanes_def renderToFbo_def
      resizeNeeded_def Let_def split: option.splits)



section \<open>Properties of the output texture\<close>

lemma transport_texture:
  "mTexture (play D T m) = mTexture m"
  "mTexture (stop D A T m) = mTexture m"
  "mTexture (pause D A T m) = mTexture m"
  "mTexture (resume D A T m) = mTexture m"
  "mTexture (setLoop D loop m) = mTexture m"
  by (simp_all add: play_def stop_def pause_def resume_def setLoop_def Let_def)

lemma seekToTime_texture:
  "mTexture (seekToTime D A T seconds m)
     = (if isInitialized D (mMovieDecoder m) then None else mTexture m)"
  by (simp add: seekToTime_def)

lemma acceptsVideo_False:
  "acceptsVideo D A T m = Some False \<longleftrightarrow> acceptedFrame D A T m = Some None"
  by (auto simp add: acceptsVideo_def)

lemma acceptsVideo_True:
  "acceptsVideo D A T m = Some True \<longleftrightarrow> (\<exists>vf. acceptedFrame D A T m = Some (Some vf))"
  by (auto simp add: acceptsVideo_def)

lemma update_quiet_texture:
  assumes "acceptedFrame D A T m = Some None" and "update D A T m = Some (Inr m')"
  shows "mTexture m' = mTexture m"
  using update_not_accepted [OF assms(1)] assms(2) by (auto simp add: sameGraphics_def)

lemma perform_quiet_texture:
  assumes "perform D A T operation m = Some (Inr m')"
    and "operation \<noteq> Update \<or> acceptsVideo D A T m = Some False"
    and "mTexture m = None"
  shows "mTexture m' = None"
proof (cases operation)
  case Update
  with assms show ?thesis
    by (simp add: perform_def acceptsVideo_False update_quiet_texture)
next
  case (SeekToTime seconds)
  with assms(1,3) show ?thesis
    by (auto simp add: perform_def seekToTime_texture)
qed (use assms(1,3) in \<open>auto simp add: perform_def transport_texture\<close>)

lemma performAll_quiet_texture:
  "acceptsNoVideo D A T ops m \<Longrightarrow> performAll D A T ops m = Some (Inr m') \<Longrightarrow>
   mTexture m = None \<Longrightarrow> mTexture m' = None"
proof (induction ops arbitrary: m)
  case Nil
  then show ?case by simp
next
  case (Cons operation rest)
  from Cons.prems(2) obtain m1 where step: "perform D A T operation m = Some (Inr m1)"
    and rest: "performAll D A T rest m1 = Some (Inr m')"
    by (auto split: option.splits sum.splits)
  from Cons.prems(1) step have quiet: "operation \<noteq> Update \<or> acceptsVideo D A T m = Some False"
    and quiet_rest: "acceptsNoVideo D A T rest m1"
    by simp_all
  from perform_quiet_texture [OF step quiet Cons.prems(3)] have "mTexture m1 = None" .
  from Cons.IH [OF quiet_rest rest this] show ?case .
qed

lemma presentVideo_texture:
  assumes "presentVideo vf m = Inr m'"
  shows "\<exists>fbo call. mFbo m' = Some fbo \<and> mTexture m' = Some (getColorTexture fbo) \<and>
           texData (getColorTexture fbo) = Rendered call \<and>
           dcProgram call = setUniforms (dcProgram call) \<and> mShader m' = Some (dcProgram call)"
  using assms
  by (auto simp add: presentVideo_def resizeTextures_def uploadPlanes_def renderToFbo_def
      resizeNeeded_def Fbo_create_def Texture2d_create_def setUniforms_def Let_def
      split: option.splits if_splits)


lemma MovieGl_ctor_texture:
  "MovieGl_ctor D A T d0 playAudio compileFailure = Inr m \<Longrightarrow> mTexture m = None"
  by (auto simp add: MovieGl_ctor_def initializeShader_def Let_def
      split: if_splits prod.splits option.splits)

text \<open>
  C5. On a movie whose decoder is initialized, \<open>seekToTime( t )\<close> clears the buffers of
  the audio path, if there is one, and sets it playing, seeks the decoder to \<open>t\<close>,
  restarts the timer at \<open>t\<close> and empties the output texture. The texture stays absent
  through every later sequence of operations in which no tick accepts a video frame, and
  the next tick that accepts one and returns sets it.
\<close>

theorem seek_clears_output:
  fixes m :: "('d, 'a, 't) MovieGl"
  assumes init: "isInitialized D (mMovieDecoder m)"
  shows "mAudioRenderer (seekToTime D A T t m)
           = map_option (\<lambda>a. arPlay A (clearBuffers A a)) (mAudioRenderer m) \<and>
         mMovieDecoder (seekToTime D A T t m) = decSeekToTime D t (mMovieDecoder m) \<and>
         mUpdateTimer (seekToTime D A T t m) = tmStart T t (mUpdateTimer m) \<and>
         getTexture (seekToTime D A T t m) = None \<and>
         (\<forall>ops m'. acceptsNoVideo D A T ops (seekToTime D A T t m) \<and>
                   performAll D A T ops (seekToTime D A T t m) = Some (Inr m')
            \<longrightarrow> getTexture m' = None) \<and>
         (\<forall>ops m' vf m''. acceptsNoVideo D A T ops (seekToTime D A T t m) \<and>
                   performAll D A T ops (seekToTime D A T t m) = Some (Inr m') \<and>
                   acceptedFrame D A T m' = Some (Some vf) \<and> update D A T m' = Some (Inr m'')
            \<longrightarrow> getTexture m'' \<noteq> None)"
proof -
  let ?m = "seekToTime D A T t m"
  have none: "mTexture ?m = None"
    using init by (simp add: seekToTime_texture)
  have quiet: "getTexture m' = None"
    if "acceptsNoVideo D A T ops ?m" "performAll D A T ops ?m = Some (Inr m')" for ops m'
    using performAll_quiet_texture [OF that none] by (simp add: getTexture_def)
  have next_frame: "getTexture m'' \<noteq> None"
    if "acceptedFrame D A T m' = Some (Some vf)" "update D A T m' = Some (Inr m'')" for m' vf m''
  proof -
    from update_accepted [OF that(1)] that(2)
    obtain m1 where "presentVideo vf m1 = Inr m''" by auto
    from presentVideo_texture [OF this] show ?thesis
      by (auto simp add: getTexture_def)
  qed
  have fields: "mAudioRenderer ?m = map_option (\<lambda>a. arPlay A (clearBuffers A a)) (mAudioRenderer m)"
    "mMovieDecoder ?m = decSeekToTime D t (mMovieDecoder m)"
    "mUpdateTimer ?m = tmStart T t (mUpdateTimer m)"
    using init by (simp_all add: seekToTime_def comp_def)
  have tex: "getTexture ?m = None"
    using none by (simp add: getTexture_def)
  from quiet have q: "\<forall>ops m'. acceptsNoVideo D A T ops ?m \<and> performAll D A T ops ?m = Some (Inr m')
            \<longrightarrow> getTexture m' = None"
    by blast
  from next_frame have n: "\<forall>ops m' vf m''. acceptsNoVideo D A T ops ?m \<and>
                   performAll D A T ops ?m = Some (Inr m') \<and>
                   acceptedFrame D A T m' = Some (Some vf) \<and> update D A T m' = Some (Inr m'')
            \<longrightarrow> getTexture m'' \<noteq> None"
    by blast
  from fields tex q n show ?thesis
    by (intro conjI)
qed

text \<open>
  The example of C5: a movie with an audio path and a texture is sought to 5, then paused,
  ticked and resumed; and a movie without audio path is sought to 5 and stopped, and its
  next tick accepts a frame.
\<close>

theorem seek_clears_output_witness:
  "isInitialized scripted (mMovieDecoder audioMovie) \<and>
   getTexture audioMovie = Some staleTexture \<and>
   mAudioRenderer (seekToTime scripted bufferedAudio heldTimer 5 audioMovie) = Some [] \<and>
   mMovieDecoder (seekToTime scripted bufferedAudio heldTimer 5 audioMovie)
     = scriptedAt 5 [(frame640, 5.01)] \<and>
   mUpdateTimer (seekToTime scripted bufferedAudio heldTimer 5 audioMovie) = 5 \<and>
   getTexture (seekToTime scripted bufferedAudio heldTimer 5 audioMovie) = None \<and>
   acceptsNoVideo scripted bufferedAudio heldTimer [Pause, Update, Resume]
     (seekToTime scripted bufferedAudio heldTimer 5 audioMovie) \<and>
   (\<exists>m'. performAll scripted bufferedAudio heldTimer [Pause, Update, Resume]
            (seekToTime scripted bufferedAudio heldTimer 5 audioMovie) = Some (Inr m') \<and>
         getTexture m' = None) \<and>
   isInitialized scripted (mMovieDecoder silentMovie) \<and>
   acceptsNoVideo scripted bufferedAudio heldTimer [Stop]
     (seekToTime scripted bufferedAudio heldTimer 5 silentMovie) \<and>
   (\<exists>m' m''. performAll scripted bufferedAudio heldTimer [Stop]
            (seekToTime scripted bufferedAudio heldTimer 5 silentMovie) = Some (Inr m') \<and>
         acceptedFrame scripted bufferedAudio heldTimer m' = Some (Some frame640) \<and>
         update scripted bufferedAudio heldTimer m' = Some (Inr m'') \<and>
         getTexture m'' \<noteq> None)"
proof -
  note defs = update_def acceptedFrame_def acceptsVideo_def decodeAudio_def decodeVideo_def
    drainVideo.simps queueAudio.simps discardAudio.simps
    videoClockBelow_def doubleEval videoBody_def scripted_def movieAt_def heldTimer_def bufferedAudio_def
    afterVideo_def presentVideo_def resizeTextures_def resizeNeeded_def uploadPlanes_def
    renderToFbo_def perform_def pause_def resume_def stop_def seekToTime_def
    audioMovie_def silentMovie_def scriptedAt_def Let_def
  let ?a = "seekToTime scripted bufferedAudio heldTimer 5 audioMovie"
  let ?s = "seekToTime scripted bufferedAudio heldTimer 5 silentMovie"
  have ia: "isInitialized scripted (mMovieDecoder audioMovie)"
    and isl: "isInitialized scripted (mMovieDecoder silentMovie)"
    by (simp_all add: scripted_def)
  note ta = seek_clears_output [OF ia, of bufferedAudio heldTimer 5]
  note ts = seek_clears_output [OF isl, of bufferedAudio heldTimer 5]
  have stale: "getTexture audioMovie = Some staleTexture"
    by (simp add: getTexture_def audioMovie_def)
  have fa: "mAudioRenderer ?a = Some []" "mMovieDecoder ?a = scriptedAt 5 [(frame640, 5.01)]"
    "mUpdateTimer ?a = 5" "getTexture ?a = None"
    using ta by (simp_all add: audioMovie_def movieAt_def scripted_def bufferedAudio_def
        heldTimer_def scriptedAt_def)
  have qa: "acceptsNoVideo scripted bufferedAudio heldTimer [Pause, Update, Resume] ?a"
    by (simp add: defs)
  obtain m' where pa: "performAll scripted bufferedAudio heldTimer [Pause, Update, Resume] ?a
      = Some (Inr m')"
    by (simp add: defs)
  from ta qa pa have na: "getTexture m' = None"
    by blast
  have qs: "acceptsNoVideo scripted bufferedAudio heldTimer [Stop] ?s"
    by (simp add: defs)
  obtain n' where ps: "performAll scripted bufferedAudio heldTimer [Stop] ?s = Some (Inr n')"
    by (simp add: defs)
  have n'_fields: "mMovieDecoder n' = scriptedAt 5 [(frame640, 5.01)]" "mUpdateTimer n' = 5"
    "mAudioRenderer n' = None" "mShader n' = Some GlslProg_create"
    using ps by (auto simp add: defs)
  have as: "acceptedFrame scripted bufferedAudio heldTimer n' = Some (Some frame640)"
    using n'_fields(1,2,3)
    by (simp add: acceptedFrame_def decodeAudio_def decodeVideo_def drainVideo.simps
        videoClockBelow_def doubleEval videoBody_def scripted_def heldTimer_def scriptedAt_def Let_def)
  from update_accepted [OF as]
  obtain m1 where m1: "sameGraphics m1 n'"
    "update scripted bufferedAudio heldTimer n' = Some (presentVideo frame640 m1)"
    by blast
  from m1(1) n'_fields(4) have "mShader m1 = Some GlslProg_create"
    by (simp add: sameGraphics_def)
  from presentVideo_returns [OF this, of frame640] m1(2)
  obtain n'' where us: "update scripted bufferedAudio heldTimer n' = Some (Inr n'')"
    by auto
  from ts qs ps as us have ns: "getTexture n'' \<noteq> None"
    by blast
  from ia stale fa qa pa na isl qs ps as us ns show ?thesis
    by blast
qed

text \<open>
  C6. A tick that accepts a video frame and returns makes the offscreen target's colour
  texture, just rendered, the output texture; a tick that accepts none returns and leaves
  the output texture as it was; \<open>seekToTime\<close> empties it on an initialized movie;
  \<open>play\<close>, \<open>stop\<close>, \<open>pause\<close>, \<open>resume\<close> and \<open>setLoop\<close> leave it as it was; and
  from construction on it is absent as long as no tick has accepted a frame.
\<close>

theorem output_texture_frame:
  fixes m :: "('d, 'a, 't) MovieGl"
  shows "(\<forall>vf m'. acceptedFrame D A T m = Some (Some vf) \<and> update D A T m = Some (Inr m') \<longrightarrow>
            (\<exists>fbo call. mFbo m' = Some fbo \<and> getTexture m' = Some (getColorTexture fbo) \<and>
                        texData (getColorTexture fbo) = Rendered call)) \<and>
         (acceptedFrame D A T m = Some None \<longrightarrow>
            (\<exists>m'. update D A T m = Some (Inr m') \<and> getTexture m' = getTexture m)) \<and>
         getTexture (seekToTime D A T t m)
           = (if isInitialized D (mMovieDecoder m) then None else getTexture m) \<and>
         getTexture (play D T m) = getTexture m \<and>
         getTexture (stop D A T m) = getTexture m \<and>
         getTexture (pause D A T m) = getTexture m \<and>
         getTexture (resume D A T m) = getTexture m \<and>
         getTexture (setLoop D loop m) = getTexture m \<and>
         (\<forall>d0 playAudio compileFailure m0 ops m'.
            MovieGl_ctor D A T d0 playAudio compileFailure = Inr m0 \<and>
            acceptsNoVideo D A T ops m0 \<and> performAll D A T ops m0 = Some (Inr m')
            \<longrightarrow> getTexture m' = None)"
proof -
  have accept: "\<exists>fbo call. mFbo m' = Some fbo \<and> getTexture m' = Some (getColorTexture fbo) \<and>
                        texData (getColorTexture fbo) = Rendered call"
    if "acceptedFrame D A T m = Some (Some vf)" "update D A T m = Some (Inr m')" for vf m'
  proof -
    from update_accepted [OF that(1)] that(2)
    obtain m1 where "presentVideo vf m1 = Inr m'" by auto
    from presentVideo_texture [OF this] show ?thesis
      by (auto simp add: getTexture_def)
  qed
  have quiet: "\<exists>m'. update D A T m = Some (Inr m') \<and> getTexture m' = getTexture m"
    if "acceptedFrame D A T m = Some None"
    using update_not_accepted [OF that] by (auto simp add: sameGraphics_def getTexture_def)
  have seek: "getTexture (seekToTime D A T t m)
           = (if isInitialized D (mMovieDecoder m) then None else getTexture m)"
    by (simp add: getTexture_def seekToTime_texture)
  have transport: "getTexture (play D T m) = getTexture m"
    "getTexture (stop D A T m) = getTexture m"
    "getTexture (pause D A T m) = getTexture m"
    "getTexture (resume D A T m) = getTexture m"
    "getTexture (setLoop D loop m) = getTexture m"
    by (simp_all add: getTexture_def transport_texture)
  have fresh: "getTexture m' = None"
    if "MovieGl_ctor D A T d0 playAudio compileFailure = Inr m0"
      "acceptsNoVideo D A T ops m0" "performAll D A T ops m0 = Some (Inr m')"
    for d0 playAudio compileFailure ops m' and m0 :: "('d, 'a, 't) MovieGl"
    using performAll_quiet_texture [OF that(2,3) MovieGl_ctor_texture [OF that(1)]]
    by (simp add: getTexture_def)
  from accept have a: "\<forall>vf m'. acceptedFrame D A T m = Some (Some vf) \<and> update D A T m = Some (Inr m') \<longrightarrow>
            (\<exists>fbo call. mFbo m' = Some fbo \<and> getTexture m' = Some (getColorTexture fbo) \<and>
                        texData (getColorTexture fbo) = Rendered call)"
    by blast
  from quiet have q: "acceptedFrame D A T m = Some None \<longrightarrow>
            (\<exists>m'. update D A T m = Some (Inr m') \<and> getTexture m' = getTexture m)"
    by blast
  from fresh have f: "\<forall>d0 playAudio compileFailure m0 ops m'.
            MovieGl_ctor D A T d0 playAudio compileFailure = Inr m0 \<and>
            acceptsNoVideo D A T ops m0 \<and> performAll D A T ops m0 = Some (Inr m')
            \<longrightarrow> getTexture m' = None"
    by blast
  from a q seek transport f show ?thesis
    by (intro conjI)
qed

text \<open>
  The example of C6: a constructed movie goes through a list of operations without an
  accepted frame, then a tick accepts a frame, then a tick accepts none.
\<close>

theorem output_texture_frame_witness:
  "\<exists>m0 m1 m2 m3.
     MovieGl_ctor scripted bufferedAudio heldTimer (scriptedAt 1 [(frame640, 1.02)]) False None
       = Inr m0 \<and>
     acceptsNoVideo scripted bufferedAudio heldTimer quietOperations m0 \<and>
     performAll scripted bufferedAudio heldTimer quietOperations m0 = Some (Inr m1) \<and>
     getTexture m1 = None \<and>
     acceptedFrame scripted bufferedAudio heldTimer m1 = Some (Some frame640) \<and>
     update scripted bufferedAudio heldTimer m1 = Some (Inr m2) \<and>
     getTexture m2 \<noteq> None \<and>
     acceptedFrame scripted bufferedAudio heldTimer m2 = Some None \<and>
     update scripted bufferedAudio heldTimer m2 = Some (Inr m3) \<and>
     getTexture m3 = getTexture m2"
proof -
  note defs = update_def acceptedFrame_def acceptsVideo_def decodeAudio_def decodeVideo_def
    drainVideo.simps queueAudio.simps discardAudio.simps
    videoClockBelow_def doubleEval videoBody_def scripted_def heldTimer_def bufferedAudio_def
    afterVideo_def presentVideo_def resizeTextures_def resizeNeeded_def uploadPlanes_def
    renderToFbo_def perform_def play_def pause_def resume_def stop_def seekToTime_def setLoop_def
    MovieGl_ctor_def initializeShader_def quietOperations_def scriptedAt_def Let_def
  let ?D = scripted and ?A = bufferedAudio and ?T = heldTimer
  obtain m0 where c: "MovieGl_ctor ?D ?A ?T (scriptedAt 1 [(frame640, 1.02)]) False None = Inr m0"
    by (simp add: defs)
  have m0: "m0 = \<lparr> mWidth = 0, mHeight = 0, mDuration = 0, mAudioRenderer = None,
               mMovieDecoder = scriptedAt 1 [(frame640, 1.02)], mUpdateTimer = 0,
               mYPlane = None, mUPlane = None, mVPlane = None, mFbo = None,
               mShader = Some GlslProg_create, mTexture = None, glNextName = 0,
               console = [], logV = [] \<rparr>"
    using c by (simp add: defs)
  have q: "acceptsNoVideo ?D ?A ?T quietOperations m0"
    unfolding m0 by (simp add: defs)
  obtain m1 where p: "performAll ?D ?A ?T quietOperations m0 = Some (Inr m1)"
    unfolding m0 by (simp add: defs)
  have m1: "m1 = \<lparr> mWidth = 640, mHeight = 480, mDuration = 10, mAudioRenderer = None,
               mMovieDecoder = scriptedAt 1 [(frame640, 1.02)], mUpdateTimer = 1,
               mYPlane = None, mUPlane = None, mVPlane = None, mFbo = None,
               mShader = Some GlslProg_create, mTexture = None, glNextName = 0,
               console = [], logV = [] \<rparr>"
    using p unfolding m0 by (simp add: defs)
  note t1 = output_texture_frame [of ?D ?A ?T m1]
  from t1 c q p have n1: "getTexture m1 = None"
    by blast
  have a1: "acceptedFrame ?D ?A ?T m1 = Some (Some frame640)"
    unfolding m1 by (simp add: defs)
  obtain m2 where u1: "update ?D ?A ?T m1 = Some (Inr m2)"
    unfolding m1 by (simp add: defs)
  from t1 a1 u1 have n2: "getTexture m2 \<noteq> None"
    by fastforce
  have m2: "mMovieDecoder m2 = scriptedAt 1.02 []" "mUpdateTimer m2 = 1"
    "mAudioRenderer m2 = None"
    using u1 unfolding m1 by (auto simp add: defs)
  have a2: "acceptedFrame ?D ?A ?T m2 = Some None"
    using m2
    by (simp add: acceptedFrame_def decodeAudio_def decodeVideo_def drainVideo.simps
        videoClockBelow_def doubleEval videoBody_def scripted_def heldTimer_def scriptedAt_def Let_def)
  from output_texture_frame [of ?D ?A ?T m2] a2
  obtain m3 where u2: "update ?D ?A ?T m2 = Some (Inr m3)" "getTexture m3 = getTexture m2"
    by blast
  from c q p n1 a1 u1 n2 a2 u2 show ?thesis
    by blast
qed

section \<open>Properties of \<open>checkNewFrame\<close>\<close>

text \<open>
  C7, as stated, fails. On a movie built without audio path \<open>checkNewFrame\<close> returns
  false whatever the video clock is (line 172), so no position attributed to the absent
  audio path makes "video clock < position" describe its result: for every position there
  is a video clock below it at which the result is still false.
\<close>

theorem checkNewFrame_without_audio_counterexample:
  "checkNewFrame scripted bufferedAudio (movieAt 0 0 []) = False \<and>
   \<not> (\<exists>position. \<forall>clock.
         checkNewFrame scripted bufferedAudio (movieAt 0 clock []) = (clock < position))"
proof -
  have never: "checkNewFrame scripted bufferedAudio (movieAt 0 clock []) = False" for clock
    by (simp add: checkNewFrame_def movieAt_def)
  have "\<exists>clock. \<not> (checkNewFrame scripted bufferedAudio (movieAt 0 clock []) = (clock < position))"
    for position :: real
    by (rule exI [of _ "position - 1"]) (simp add: never)
  with never show ?thesis by blast
qed

text \<open>
  C7, amended. On an initialized movie with an audio path \<open>checkNewFrame\<close> is true
  exactly when the decoder's video clock is strictly below the audio path's position; on
  an initialized movie without audio path it is false.
\<close>

theorem checkNewFrame_with_audio:
  assumes "isInitialized D (mMovieDecoder m)"
  shows "checkNewFrame D A m =
           (case mAudioRenderer m of
              None \<Rightarrow> False
            | Some a \<Rightarrow> getVideoClock D (mMovieDecoder m) < getCurrentPts A a)"
  using assms by (simp add: checkNewFrame_def split: option.splits)

text \<open>
  The example of C7: with the audio position at 3 and the video clock at 2 the result is
  true; the same movie without audio path gives false.
\<close>

theorem checkNewFrame_with_audio_witness:
  "isInitialized scripted (mMovieDecoder playingAudio) \<and>
   checkNewFrame scripted bufferedAudio playingAudio = True \<and>
   isInitialized scripted (mMovieDecoder (movieAt 0 2 [])) \<and>
   checkNewFrame scripted bufferedAudio (movieAt 0 2 []) = False"
proof -
  have i1: "isInitialized scripted (mMovieDecoder playingAudio)"
    and i2: "isInitialized scripted (mMovieDecoder (movieAt 0 2 []))"
    by (simp_all add: scripted_def)
  from checkNewFrame_with_audio [OF i1, of bufferedAudio]
  have "checkNewFrame scripted bufferedAudio playingAudio = True"
    by (simp add: playingAudio_def movieAt_def scripted_def bufferedAudio_def)
  moreover from checkNewFrame_with_audio [OF i2, of bufferedAudio]
  have "checkNewFrame scripted bufferedAudio (movieAt 0 2 []) = False"
    by (simp add: movieAt_def)
  ultimately show ?thesis using i1 i2 by blast
qed

section \<open>A program that failed to compile\<close>

lemma update_without_program:
  assumes "acceptedFrame D A T m = Some (Some vf)" and "mShader m = None"
  shows "update D A T m = Some (Inl NullPointerDereference)"
proof -
  from update_accepted [OF assms(1)]
  obtain m1 where m1: "sameGraphics m1 m" "update D A T m = Some (presentVideo vf m1)"
    by blast
  from m1(1) assms(2) have "mShader m1 = None"
    by (simp add: sameGraphics_def)
  then have "presentVideo vf m1 = Inl NullPointerDereference"
    by (simp add: presentVideo_def resizeTextures_def uploadPlanes_def renderToFbo_def
        Let_def split: option.splits)
  with m1(2) show ?thesis by simp
qed

text \<open>
  C8 against the code. A movie is built while the compilation of the program throws: the
  message goes to the console and \<open>mShader\<close> stays empty. After \<open>play\<close> the first tick
  accepts a frame and reaches \<open>mShader->uniform( ... )\<close> at line 143 with the empty
  pointer: the tick does not complete.
\<close>

theorem shader_failure_null_dereference:
  "\<exists>m0. MovieGl_ctor scripted bufferedAudio heldTimer (scriptedAt 0 [(frame640, 0.02)]) False
          (Some ''compile error'') = Inr m0 \<and>
        console m0 = [''compile error''] \<and> mShader m0 = None \<and>
        acceptedFrame scripted bufferedAudio heldTimer (play scripted heldTimer m0)
          = Some (Some frame640) \<and>
        update scripted bufferedAudio heldTimer (play scripted heldTimer m0)
          = Some (Inl NullPointerDereference)"
proof -
  note defs = acceptedFrame_def decodeAudio_def decodeVideo_def
    drainVideo.simps videoClockBelow_def doubleEval videoBody_def scripted_def heldTimer_def
    play_def MovieGl_ctor_def initializeShader_def scriptedAt_def Let_def
  obtain m0 where c: "MovieGl_ctor scripted bufferedAudio heldTimer
      (scriptedAt 0 [(frame640, 0.02)]) False (Some ''compile error'') = Inr m0"
    by (simp add: defs)
  have m0: "m0 = \<lparr> mWidth = 0, mHeight = 0, mDuration = 0, mAudioRenderer = None,
               mMovieDecoder = scriptedAt 0 [(frame640, 0.02)], mUpdateTimer = 0,
               mYPlane = None, mUPlane = None, mVPlane = None, mFbo = None,
               mShader = None, mTexture = None, glNextName = 0,
               console = [''compile error''], logV = [] \<rparr>"
    using c by (simp add: defs)
  have a: "acceptedFrame scripted bufferedAudio heldTimer (play scripted heldTimer m0)
      = Some (Some frame640)"
    unfolding m0 by (simp add: defs)
  have s: "mShader (play scripted heldTimer m0) = None"
    unfolding m0 by (simp add: defs)
  from update_without_program [OF a s] c a m0 show ?thesis
    by simp
qed

section \<open>Properties of the audio part\<close>

lemma discardAudio_pulls:
  "\<forall>i<n. audioPullSucceeds D ((pullAudio D ^^ i) (af, d)) \<Longrightarrow>
   \<not> audioPullSucceeds D ((pullAudio D ^^ n) (af, d)) \<Longrightarrow>
   discardAudio D d af
     = Some (snd ((pullAudio D ^^ Suc n) (af, d)), fst ((pullAudio D ^^ Suc n) (af, d)))"
proof (induction n arbitrary: af d)
  case 0
  then show ?case
    by (subst discardAudio.simps) (simp add: audioPullSucceeds_def pullAudio_def Let_def)
next
  case (Suc n)
  let ?r = "pullAudio D (af, d)"
  from Suc.prems(1) have ok: "audioPullSucceeds D (af, d)"
    by (metis funpow_0 zero_less_Suc)
  have shift: "(pullAudio D ^^ i) ?r = (pullAudio D ^^ Suc i) (af, d)" for i
    by (simp add: funpow_swap1)
  have "\<forall>i<n. audioPullSucceeds D ((pullAudio D ^^ i) (fst ?r, snd ?r))"
    using Suc.prems(1) by (simp add: shift del: funpow.simps)
  moreover have "\<not> audioPullSucceeds D ((pullAudio D ^^ n) (fst ?r, snd ?r))"
    using Suc.prems(2) by (simp add: shift del: funpow.simps)
  ultimately have "discardAudio D (snd ?r) (fst ?r)
     = Some (snd ((pullAudio D ^^ Suc n) (fst ?r, snd ?r)), fst ((pullAudio D ^^ Suc n) (fst ?r, snd ?r)))"
    by (rule Suc.IH)
  moreover have "discardAudio D d af = discardAudio D (snd ?r) (fst ?r)"
    using ok by (subst discardAudio.simps) (simp add: audioPullSucceeds_def pullAudio_def Let_def)
  ultimately show ?case
    by (simp add: shift del: funpow.simps)
qed

lemma discardAudio_returns_fail:
  assumes "discardAudio D d af = Some r"
  shows "\<exists>n. \<not> audioPullSucceeds D ((pullAudio D ^^ n) (af, d))"
proof (rule discardAudio.raw_induct
    [where P = "\<lambda>D d af r. \<exists>n. \<not> audioPullSucceeds D ((pullAudio D ^^ n) (af, d))", OF _ assms])
  fix discardAudio' :: "'a MovieDecoder \<Rightarrow> 'a \<Rightarrow> AudioFrame \<Rightarrow> ('a \<times> AudioFrame) option"
    and D d af r
  assume IH: "\<And>D d af r. discardAudio' D d af = Some r \<Longrightarrow>
      \<exists>n. \<not> audioPullSucceeds D ((pullAudio D ^^ n) (af, d))"
    and eq: "(let r = decodeAudioFrame D d af
              in if fst r then discardAudio' D (snd (snd r)) (fst (snd r))
                 else Some (snd (snd r), fst (snd r))) = Some r"
  show "\<exists>n. \<not> audioPullSucceeds D ((pullAudio D ^^ n) (af, d))"
  proof (cases "audioPullSucceeds D (af, d)")
    case False
    then show ?thesis by (intro exI [of _ 0]) simp
  next
    case True
    let ?r = "pullAudio D (af, d)"
    from True eq have "discardAudio' D (snd ?r) (fst ?r) = Some r"
      by (simp add: audioPullSucceeds_def pullAudio_def Let_def)
    from IH [OF this] obtain n where "\<not> audioPullSucceeds D ((pullAudio D ^^ n) (fst ?r, snd ?r))"
      by blast
    moreover have "(pullAudio D ^^ Suc n) (af, d) = (pullAudio D ^^ n) ?r"
      by (simp add: funpow_swap1)
    ultimately have "\<not> audioPullSucceeds D ((pullAudio D ^^ Suc n) (af, d))"
      by simp
    then show ?thesis by blast
  qed
qed

text \<open>
  The audio part of a tick on an initialized movie without audio path whose stream has
  audio: if the first \<open>n\<close> audio pulls succeed and the next one fails, it returns with the
  decoder as it is after these \<open>n + 1\<close> pulls, nothing else changed, and with the timer's
  seconds as the clock value; the tick runs its video loop against that value and returns,
  without error when the program was compiled.
\<close>

lemma discardAudio_tick:
  fixes m :: "('d, 'a, 't) MovieGl"
  assumes init: "isInitialized D (mMovieDecoder m)"
    and silent: "mAudioRenderer m = None"
    and audio: "hasAudio D (mMovieDecoder m)"
    and succeed: "\<forall>i<n. audioPullSucceeds D ((pullAudio D ^^ i) (AudioFrame_init, mMovieDecoder m))"
    and fail: "\<not> audioPullSucceeds D ((pullAudio D ^^ n) (AudioFrame_init, mMovieDecoder m))"
  shows "decodeAudio D A T m
           = Some (m\<lparr> mMovieDecoder := snd ((pullAudio D ^^ Suc n) (AudioFrame_init, mMovieDecoder m)) \<rparr>,
                   getSeconds T (mUpdateTimer m)) \<and>
         update D A T m
           = Some (let m1 = m\<lparr> mMovieDecoder := snd ((pullAudio D ^^ Suc n) (AudioFrame_init, mMovieDecoder m)) \<rparr>;
                       s = decodeVideo D T (getSeconds T (mUpdateTimer m)) m1
                   in if hasVideo s then presentVideo (videoFrame s) (afterVideo s m1)
                      else Inr (afterVideo s m1)) \<and>
         (mShader m \<noteq> None \<longrightarrow> (\<exists>m'. update D A T m = Some (Inr m')))"
proof -
  let ?m1 = "m\<lparr> mMovieDecoder := snd ((pullAudio D ^^ Suc n) (AudioFrame_init, mMovieDecoder m)) \<rparr>"
  let ?s = "decodeVideo D T (getSeconds T (mUpdateTimer m)) ?m1"
  have da: "decodeAudio D A T m = Some (?m1, getSeconds T (mUpdateTimer m))"
    using silent audio discardAudio_pulls [OF succeed fail]
    by (simp add: decodeAudio_def del: funpow.simps)
  have up: "update D A T m
      = Some (let m1 = ?m1; s = decodeVideo D T (getSeconds T (mUpdateTimer m)) m1
              in if hasVideo s then presentVideo (videoFrame s) (afterVideo s m1)
                 else Inr (afterVideo s m1))"
    using init da by (simp add: update_def Let_def del: funpow.simps)
  have ok: "\<exists>m'. update D A T m = Some (Inr m')" if "mShader m \<noteq> None"
  proof (cases "hasVideo ?s")
    case False
    with up show ?thesis by (simp add: Let_def del: funpow.simps)
  next
    case True
    from that obtain p where "mShader (afterVideo ?s ?m1) = Some p"
      by (auto simp add: afterVideo_def)
    from presentVideo_returns [OF this, of "videoFrame ?s"] up True show ?thesis
      by (auto simp add: Let_def simp del: funpow.simps)
  qed
  from da up ok show ?thesis
    by (simp del: funpow.simps)
qed

text \<open>
  For example, a movie built with \<open>playAudio = false\<close> on a stream with two audio frames;
  the third pull fails.
\<close>

lemma discardAudio_tick_example:
  "\<exists>m. MovieGl_ctor scripted bufferedAudio heldTimer audioStream False None = Inr m \<and>
       isInitialized scripted (mMovieDecoder m) \<and> mAudioRenderer m = None \<and>
       hasAudio scripted (mMovieDecoder m) \<and>
       (\<forall>i<2. audioPullSucceeds scripted ((pullAudio scripted ^^ i) (AudioFrame_init, mMovieDecoder m))) \<and>
       \<not> audioPullSucceeds scripted ((pullAudio scripted ^^ 2) (AudioFrame_init, mMovieDecoder m)) \<and>
       decodeAudio scripted bufferedAudio heldTimer m
         = Some (m\<lparr> mMovieDecoder := audioStream\<lparr> sdAudio := [] \<rparr> \<rparr>, 0) \<and>
       (\<exists>m'. update scripted bufferedAudio heldTimer m = Some (Inr m'))"
proof -
  note defs = MovieGl_ctor_def initializeShader_def scripted_def heldTimer_def audioStream_def
    audioPullSucceeds_def pullAudio_def Let_def
  obtain m where c: "MovieGl_ctor scripted bufferedAudio heldTimer audioStream False None = Inr m"
    by (simp add: defs)
  have m: "m = \<lparr> mWidth = 0, mHeight = 0, mDuration = 0, mAudioRenderer = None,
               mMovieDecoder = audioStream, mUpdateTimer = 0,
               mYPlane = None, mUPlane = None, mVPlane = None, mFbo = None,
               mShader = Some GlslProg_create, mTexture = None, glNextName = 0,
               console = [], logV = [] \<rparr>"
    using c by (simp add: defs)
  have h1: "isInitialized scripted (mMovieDecoder m)" and h2: "mAudioRenderer m = None"
    and h3: "hasAudio scripted (mMovieDecoder m)"
    unfolding m by (simp_all add: defs)
  have h4: "\<forall>i<2. audioPullSucceeds scripted ((pullAudio scripted ^^ i) (AudioFrame_init, mMovieDecoder m))"
    unfolding m by (simp add: defs less_Suc_eq numeral_2_eq_2)
  have h5: "\<not> audioPullSucceeds scripted ((pullAudio scripted ^^ 2) (AudioFrame_init, mMovieDecoder m))"
    unfolding m by (simp add: defs numeral_2_eq_2)
  have s: "mShader m \<noteq> None"
    unfolding m by simp
  note t = discardAudio_tick [OF h1 h2 h3 h4 h5, of bufferedAudio heldTimer]
  have after: "snd ((pullAudio scripted ^^ Suc 2) (AudioFrame_init, mMovieDecoder m))
      = audioStream\<lparr> sdAudio := [] \<rparr>"
    unfolding m by (simp add: defs numeral_2_eq_2)
  have seconds: "getSeconds heldTimer (mUpdateTimer m) = 0"
    unfolding m by (simp add: heldTimer_def)
  from t [THEN conjunct1]
  have d: "decodeAudio scripted bufferedAudio heldTimer m
         = Some (m\<lparr> mMovieDecoder := audioStream\<lparr> sdAudio := [] \<rparr> \<rparr>, 0)"
    unfolding after seconds .
  from t [THEN conjunct2, THEN conjunct2] s
  have u: "\<exists>m'. update scripted bufferedAudio heldTimer m = Some (Inr m')"
    by blast
  from c h1 h2 h3 h4 h5 d u show ?thesis
    by blast
qed

text \<open>
  C9 against the code. A movie is built with \<open>playAudio = false\<close> on a stream that has
  audio, while the compilation of the program throws. Its tick pulls and discards the two
  audio frames until the third pull fails and takes the timer's seconds as the clock value,
  as C9 says; it then accepts the video frame that is due and reaches
  \<open>mShader->uniform( ... )\<close> at line 143 with the empty pointer: an error is raised.
\<close>

theorem no_audio_path_tick_raises:
  "\<exists>m. MovieGl_ctor scripted bufferedAudio heldTimer audioVideoStream False
          (Some ''compile error'') = Inr m \<and>
       isInitialized scripted (mMovieDecoder m) \<and> mAudioRenderer m = None \<and>
       hasAudio scripted (mMovieDecoder m) \<and>
       decodeAudio scripted bufferedAudio heldTimer m
         = Some (m\<lparr> mMovieDecoder := audioVideoStream\<lparr> sdAudio := [] \<rparr> \<rparr>,
                 getSeconds heldTimer (mUpdateTimer m)) \<and>
       acceptedFrame scripted bufferedAudio heldTimer m = Some (Some frame640) \<and>
       update scripted bufferedAudio heldTimer m = Some (Inl NullPointerDereference)"
proof -
  note defs = MovieGl_ctor_def initializeShader_def scripted_def heldTimer_def
    audioVideoStream_def Let_def
  obtain m where c: "MovieGl_ctor scripted bufferedAudio heldTimer audioVideoStream False
      (Some ''compile error'') = Inr m"
    by (simp add: defs)
  have m: "m = \<lparr> mWidth = 0, mHeight = 0, mDuration = 0, mAudioRenderer = None,
               mMovieDecoder = audioVideoStream, mUpdateTimer = 0,
               mYPlane = None, mUPlane = None, mVPlane = None, mFbo = None,
               mShader = None, mTexture = None, glNextName = 0,
               console = [''compile error''], logV = [] \<rparr>"
    using c by (simp add: defs)
  have h: "isInitialized scripted (mMovieDecoder m)" "mAudioRenderer m = None"
    "hasAudio scripted (mMovieDecoder m)" "mShader m = None"
    unfolding m by (simp_all add: defs)
  have d: "decodeAudio scripted bufferedAudio heldTimer m
         = Some (m\<lparr> mMovieDecoder := audioVideoStream\<lparr> sdAudio := [] \<rparr> \<rparr>,
                 getSeconds heldTimer (mUpdateTimer m))"
    unfolding m by (simp add: decodeAudio_def discardAudio.simps defs)
  have a: "acceptedFrame scripted bufferedAudio heldTimer m = Some (Some frame640)"
    unfolding acceptedFrame_def d
    by (simp add: m decodeVideo_def drainVideo.simps videoClockBelow_def doubleEval videoBody_def
        defs)
  from update_without_program [OF a h(4)] c h(1,2,3) d a show ?thesis
    by blast
qed

section \<open>Properties of the fragment program\<close>

lemma tone_defaults:
  "contrastStep (setUniforms p) (baseMatrix (yuvSample (setUniforms p) t1 t2 t3))
     = (1.164 * (t1 - 16 / 256) + 1.596 * (t3 - 128 / 256),
        1.164 * (t1 - 16 / 256) - 0.391 * (t2 - 128 / 256) - 0.813 * (t3 - 128 / 256),
        1.164 * (t1 - 16 / 256) + 2.018 * (t2 - 128 / 256))"
  by (simp add: contrastStep_def baseMatrix_def yuvSample_def dot_def setUniforms_def
      algebra_simps)

lemma glslPow_one: "glslPow x 1 = (if x < 0 then None else Some x)"
  by (simp add: glslPow_def)

lemma setUniforms_tone:
  "brightness (setUniforms p) = 0" "contrast (setUniforms p) = 1" "gamma (setUniforms p) = (1, 1, 1)"
  by (simp_all add: setUniforms_def)



text \<open>
  The example does not hang on the exact value a byte is sampled to: for samples within
  0.004 of 235/256 and within 0.002 of 1/2, which includes 235/255 and 128/255, all three
  channels are defined and within 0.01 of 0.995.
\<close>

lemma color_example_stable:
  assumes "\<bar>t1 - 235 / 256\<bar> \<le> 0.004" and "\<bar>t2 - 128 / 256\<bar> \<le> 0.002" and "\<bar>t3 - 128 / 256\<bar> \<le> 0.002"
  shows "\<exists>r g b. fragmentMain (setUniforms p) t1 t2 t3 = (Some r, Some g, Some b) \<and>
           \<bar>r - 0.995\<bar> < 0.01 \<and> \<bar>g - 0.995\<bar> < 0.01 \<and> \<bar>b - 0.995\<bar> < 0.01"
proof -
  let ?r = "1.164 * (t1 - 16 / 256) + 1.596 * (t3 - 128 / 256)"
  let ?g = "1.164 * (t1 - 16 / 256) - 0.391 * (t2 - 128 / 256) - 0.813 * (t3 - 128 / 256)"
  let ?b = "1.164 * (t1 - 16 / 256) + 2.018 * (t2 - 128 / 256)"
  from assms have r: "\<bar>?r - 0.995\<bar> < 0.01"
    unfolding abs_le_iff abs_less_iff by (simp add: field_simps)
  from assms have g: "\<bar>?g - 0.995\<bar> < 0.01"
    unfolding abs_le_iff abs_less_iff by (simp add: field_simps)
  from assms have b: "\<bar>?b - 0.995\<bar> < 0.01"
    unfolding abs_le_iff abs_less_iff by (simp add: field_simps)
  from r have "\<not> ?r < 0"
    unfolding abs_less_iff by (simp add: field_simps)
  moreover from g have "\<not> ?g < 0"
    unfolding abs_less_iff by (simp add: field_simps)
  moreover from b have "\<not> ?b < 0"
    unfolding abs_less_iff by (simp add: field_simps)
  ultimately have "fragmentMain (setUniforms p) t1 t2 t3 = (Some ?r, Some ?g, Some ?b)"
    unfolding fragmentMain_def tone_defaults
    by (simp only: gammaStep_def setUniforms_tone glslPow_one prod.case if_False)
  with r g b show ?thesis by blast
qed

end
